theory Spec2Isabelle
  imports Complex_Main "HOL-Library.Multiset"
begin

section \<open>Conventions of the embedding\<close>

text \<open>
  The Python sources compute with \<^verbatim>\<open>float\<close>; the embedding reads every float as a
  real number, so that \<^verbatim>\<open>1e-12\<close> is \<open>1 / 10 ^ 12\<close> and \<^verbatim>\<open>math.ceil\<close> is the
  ceiling of a real. Python's \<^verbatim>\<open>int\<close> is \<open>int\<close> (or \<open>nat\<close> for lengths and
  indices), \<^verbatim>\<open>str\<close> is \<open>string\<close>. Exceptions are values of the type \<open>error\<close>,
  returned on the left of a sum. Rounding, overflow and \<^verbatim>\<open>nan\<close> of the floating-point
  arithmetic are outside these definitions: a statement about them is one about exact
  arithmetic. Where rounding decides a statement (the ceiling in \<^verbatim>\<open>target_ideal_kva\<close>,
  the round trip through \<^verbatim>\<open>standardize\<close>), the function is given a second time with the
  floating-point operations as parameters, see the section on floating-point arithmetic.
\<close>

datatype error =
    ValueError_singular          \<comment> \<open>\<^verbatim>\<open>ValueError("Matriz singular ou mal condicionada")\<close>\<close>
  | ValueError_zip               \<comment> \<open>\<^verbatim>\<open>zip(..., strict=True)\<close> on lists of different lengths\<close>
  | ZeroDivisionError
  | IndexError
  | SystemExit_no_customers      \<comment> \<open>\<^verbatim>\<open>SystemExit("Sem clientes. ...")\<close>\<close>
  | SystemExit_few_samples nat   \<comment> \<open>\<^verbatim>\<open>SystemExit(f"Poucos dados para treinar ({len(x)} amostras). ...")\<close>\<close>
  | SystemExit_few_customers     \<comment> \<open>\<^verbatim>\<open>SystemExit("Poucos dados para treinar (precisa de pelo menos 10 clientes com telemetria)")\<close>\<close>
  | OverflowError                \<comment> \<open>\<^verbatim>\<open>math.ceil\<close> of an infinity\<close>
  | ValueError_nan               \<comment> \<open>\<^verbatim>\<open>math.ceil\<close> of a \<^verbatim>\<open>nan\<close>\<close>

section \<open>Ideal-power target (\<^verbatim>\<open>ai_power_train.py\<close>)\<close>

text \<open>The \<^verbatim>\<open>Customer\<close> dataclass of \<^verbatim>\<open>ai_power_train.py\<close>.\<close>

record power_customer =
  pc_id :: string
  pc_segment :: string
  pc_contracted_power_kva :: real
  pc_home_area_m2 :: real
  pc_household_size :: int
  pc_has_solar :: int
  pc_ev_count :: int

text \<open>
  The three local values of \<^verbatim>\<open>target_ideal_kva\<close>, each the expression bound in the
  source, and the function itself.
\<close>

definition peak_kva :: "real \<Rightarrow> real" where
  "peak_kva peak_watts_30d =
     (if peak_watts_30d > 0 then (peak_watts_30d / 1000) / 0.85 else 1)"

definition avg_kva :: "real \<Rightarrow> real" where
  "avg_kva avg_watts_30d =
     (if avg_watts_30d > 0 then (avg_watts_30d / 1000) * 2.2 else 1)"

definition seg_margin :: "string \<Rightarrow> real" where
  "seg_margin segment =
     (if segment = ''industrial'' then 0.15
      else if segment = ''sme'' then 0.10 else 0.08)"

definition target_ideal_kva :: "power_customer \<Rightarrow> real \<Rightarrow> real \<Rightarrow> real" where
  "target_ideal_kva customer peak_watts_30d avg_watts_30d =
     (let base = max (peak_kva peak_watts_30d) (avg_kva avg_watts_30d)
                   * (1 + seg_margin (pc_segment customer));
          kva = real_of_int \<lceil>base * 10\<rceil> / 10
      in min 60 (max 1 kva))"

text \<open>
  The margins as the specification lists them, for the three segments of the data model.
\<close>

definition spec_margin :: "string \<Rightarrow> real" where
  "spec_margin segment =
     (if segment = ''residential'' then 0.08
      else if segment = ''sme'' then 0.10
      else if segment = ''industrial'' then 0.15 else 0)"

definition residential0 :: power_customer where
  "residential0 = \<lparr>pc_id = ''C_0'', pc_segment = ''residential'',
     pc_contracted_power_kva = 3.45, pc_home_area_m2 = 80, pc_household_size = 2,
     pc_has_solar = 0, pc_ev_count = 0\<rparr>"

section \<open>Simulation engine (\<^verbatim>\<open>ai_generate.py\<close>)\<close>

text \<open>
  Of a \<^verbatim>\<open>datetime\<close> the simulation reads the day of the year
  (\<^verbatim>\<open>timetuple().tm_yday\<close>), the hour, the minute and the weekday (0 is Monday).
\<close>

record datetime =
  dt_yday :: nat
  dt_hour :: nat
  dt_minute :: nat
  dt_weekday :: nat

text \<open>The \<^verbatim>\<open>Customer\<close> dataclass of \<^verbatim>\<open>ai_generate.py\<close>.\<close>

record customer =
  id_customer :: string
  name :: string
  segment :: string
  city :: string
  contracted_power_kva :: real
  tariff :: string
  utility :: string
  price_eur_per_kwh :: real
  fixed_daily_fee_eur :: real
  has_smart_meter :: int
  home_area_m2 :: real
  household_size :: int
  locality_type :: string
  dwelling_type :: string
  build_year_band :: string
  heating_sources :: string
  has_solar :: int
  ev_count :: int
  alert_sensitivity :: string
  main_appliances :: string

definition RATE_EUR_PER_KWH :: real where
  "RATE_EUR_PER_KWH = 0.20"

definition INTERVAL_MINUTES :: nat where
  "INTERVAL_MINUTES = 15"

definition INTERVAL_HOURS :: real where
  "INTERVAL_HOURS = real INTERVAL_MINUTES / 60"

text \<open>
  \<^verbatim>\<open>random.Random\<close> belongs to the Python library. The embedding takes the three
  methods the simulation calls as parameters over a generator state \<open>'s\<close>; each returns
  the drawn value and the next state.
\<close>

record 's rng =
  rng_gauss :: "real \<Rightarrow> real \<Rightarrow> 's \<Rightarrow> real \<times> 's"
  rng_random :: "'s \<Rightarrow> real \<times> 's"
  rng_uniform :: "real \<Rightarrow> real \<Rightarrow> 's \<Rightarrow> real \<times> 's"

text \<open>
  What the library documents of \<^verbatim>\<open>uniform(a, b)\<close> for \<open>a \<le> b\<close> and of
  \<^verbatim>\<open>random()\<close>: the draw lies in \<open>[a, b]\<close>, respectively in \<open>[0, 1)\<close>.
\<close>

definition rng_in_range :: "'s rng \<Rightarrow> bool" where
  "rng_in_range R \<longleftrightarrow>
     (\<forall>a b s. a \<le> b \<longrightarrow> a \<le> fst (rng_uniform R a b s) \<and> fst (rng_uniform R a b s) \<le> b) \<and>
     (\<forall>s. 0 \<le> fst (rng_random R s) \<and> fst (rng_random R s) < 1)"

definition seasonal_temperature :: "datetime \<Rightarrow> string \<Rightarrow> real" where
  "seasonal_temperature ts city_name =
     (let day_of_year = int (dt_yday ts);
          base = 16 + 7 * sin (2 * pi * real_of_int (day_of_year - 170) / 365);
          coast_bias =
            (if city_name \<in> {''Porto'', ''Matosinhos'', ''Vila Nova de Gaia'', ''Aveiro''}
             then - 1 else 0)
      in base + coast_bias)"

text \<open>
  \<^verbatim>\<open>simulate_watts\<close>. The generator is threaded through the calls in the order of
  the source; \<^verbatim>\<open>rng.random()\<close> of the vehicle branch is drawn only when the two
  tests before it hold (Python's \<^verbatim>\<open>and\<close>), and \<^verbatim>\<open>rng.uniform\<close> only when
  the spike test holds. The result is the triple the source returns and the state of
  the generator after the call.
\<close>

definition simulate_watts ::
  "'s rng \<Rightarrow> datetime \<Rightarrow> customer \<Rightarrow> real option \<Rightarrow> 's \<Rightarrow> (real \<times> real \<times> real) \<times> 's" where
  "simulate_watts R ts customer last_watts s0 =
     (let hour = real (dt_hour ts) + real (dt_minute ts) / 60;
          dow = dt_weekday ts;
          is_weekend = (dow \<ge> 5);
          (g1, s1) = rng_gauss R 0 1.2 s0;
          temp_c = seasonal_temperature ts (city customer) + g1;
          load0 =
            (if segment customer = ''residential'' then
               (180 + 220 * exp (- ((hour - 7.5)\<^sup>2) / 5.5) + 380 * exp (- ((hour - 20.5)\<^sup>2) / 7))
                 * (if is_weekend then 1.15 else 1)
             else if segment customer = ''sme'' then
               (420 + 900 * exp (- ((hour - 13)\<^sup>2) / 18)) * (if is_weekend then 0.55 else 1)
             else 1500 + 1200 * exp (- ((hour - 11)\<^sup>2) / 26));
          area_factor = max 0.7 (min 2.2 (1 + (home_area_m2 customer - 80) / 420));
          household_factor =
            max 0.75 (min 2 (1 + real_of_int (household_size customer - 2) * 0.08));
          load1 = load0 * area_factor * household_factor;
          comfort = 19;
          temp_effect = 18 * max 0 (comfort - temp_c) + 14 * max 0 (temp_c - 25);
          load2 =
            (if has_solar customer \<noteq> 0 \<and> 10 \<le> hour \<and> hour \<le> 16
             then load1 * (1 - (0.10 + 0.18 * exp (- ((hour - 13)\<^sup>2) / 4.5)))
             else load1);
          (load, s2) =
            (if ev_count customer > 0 \<and> 0 \<le> hour \<and> hour \<le> 6
             then (let (u, s') = rng_random R s1
                   in (if u < 0.10 then load2 + 900 * real_of_int (ev_count customer) else load2, s'))
             else (load2, s1));
          contracted_watts = contracted_power_kva customer * 1000;
          cap = contracted_watts * 0.92;
          last = (case last_watts of None \<Rightarrow> load | Some w \<Rightarrow> w);
          (noise, s3) = rng_gauss R 0 (max 12 (0.03 * load)) s2;
          watts0 = 0.70 * load + 0.25 * last + 0.05 * temp_effect + noise;
          watts1 = max 40 (min watts0 cap);
          (u2, s4) = rng_random R s3;
          (watts, s5) =
            (if u2 < (if segment customer = ''residential'' then 0.004 else 0.002)
             then (let (amt, s') = rng_uniform R 800 2200 s4 in (min cap (watts1 + amt), s'))
             else (watts1, s4));
          euros = (watts / 1000) * RATE_EUR_PER_KWH * INTERVAL_HOURS
      in ((watts, temp_c, euros), s5))"

section \<open>Linear-algebra kernel (\<^verbatim>\<open>ai_train.py\<close> and \<^verbatim>\<open>ai_power_train.py\<close>)\<close>

text \<open>
  The two training scripts carry the same copies of \<^verbatim>\<open>dot\<close>, \<^verbatim>\<open>mat_transpose\<close>,
  \<^verbatim>\<open>mat_mul\<close>, \<^verbatim>\<open>identity\<close>, \<^verbatim>\<open>invert_matrix\<close>, \<^verbatim>\<open>standardize\<close>,
  \<^verbatim>\<open>ridge_fit\<close> and \<^verbatim>\<open>predict_row\<close>; one definition stands for both. A matrix is
  a list of rows.
\<close>

type_synonym matrix = "real list list"

definition dot :: "real list \<Rightarrow> real list \<Rightarrow> real" where
  "dot a b = sum_list (map2 (\<lambda>x y. x * y) a b)"

definition mat_transpose :: "matrix \<Rightarrow> matrix" where
  "mat_transpose m =
     (if m = [] then [] else map (\<lambda>j. map (\<lambda>row. row ! j) m) [0..<length (m ! 0)])"

definition mat_mul :: "matrix \<Rightarrow> matrix \<Rightarrow> matrix" where
  "mat_mul a b = (let bt = mat_transpose b in map (\<lambda>row. map (\<lambda>col. dot row col) bt) a)"

definition mat_vec_mul :: "matrix \<Rightarrow> real list \<Rightarrow> real list" where
  "mat_vec_mul a v = map (\<lambda>row. dot row v) a"

definition identity :: "nat \<Rightarrow> matrix" where
  "identity n = map (\<lambda>i. map (\<lambda>j. if i = j then 1 else 0) [0..<n]) [0..<n]"

subsection \<open>Gauss-Jordan inversion\<close>

text \<open>
  \<^verbatim>\<open>invert_matrix\<close>, loop by loop. \<open>find_pivot\<close> is the inner loop that selects the
  pivot row, \<open>eliminate_rows\<close> the loop that clears the column in the other rows,
  \<open>gauss_jordan_column\<close> one pass of the outer loop body and \<open>gauss_jordan_loop\<close> the
  outer loop over the columns it is given. The \<^verbatim>\<open>raise\<close> ends the loop with
  \<open>Inl ValueError_singular\<close>. The caller \<^verbatim>\<open>ridge_fit\<close> passes a square matrix; the
  statements below about \<open>invert_matrix\<close> are for square matrices, on which no index of
  the source is out of range.
\<close>

definition find_pivot :: "matrix \<Rightarrow> nat \<Rightarrow> nat \<Rightarrow> nat" where
  "find_pivot aug col n =
     fold (\<lambda>r pivot. if \<bar>aug ! r ! col\<bar> > \<bar>aug ! pivot ! col\<bar> then r else pivot)
       [col + 1..<n] col"

definition eliminate_rows :: "matrix \<Rightarrow> nat \<Rightarrow> nat \<Rightarrow> matrix" where
  "eliminate_rows aug col n =
     fold (\<lambda>r a.
        if r = col then a
        else (let factor = a ! r ! col
              in if \<bar>factor\<bar> < 1 / 10 ^ 12 then a
                 else a[r := map2 (\<lambda>rv cv. rv - factor * cv) (a ! r) (a ! col)]))
       [0..<n] aug"

definition gauss_jordan_column :: "nat \<Rightarrow> nat \<Rightarrow> matrix \<Rightarrow> error + matrix" where
  "gauss_jordan_column n col aug =
     (let pivot = find_pivot aug col n
      in if \<bar>aug ! pivot ! col\<bar> < 1 / 10 ^ 12 then Inl ValueError_singular
         else (let aug1 = (if pivot \<noteq> col then aug[col := aug ! pivot, pivot := aug ! col]
                           else aug);
                   pv = aug1 ! col ! col;
                   inv_pv = 1 / pv;
                   aug2 = aug1[col := map (\<lambda>x. x * inv_pv) (aug1 ! col)]
               in Inr (eliminate_rows aug2 col n)))"

fun gauss_jordan_loop :: "nat \<Rightarrow> nat list \<Rightarrow> matrix \<Rightarrow> error + matrix" where
  "gauss_jordan_loop n [] aug = Inr aug"
| "gauss_jordan_loop n (col # cols) aug =
     (case gauss_jordan_column n col aug of
        Inl e \<Rightarrow> Inl e
      | Inr aug' \<Rightarrow> gauss_jordan_loop n cols aug')"

definition augment :: "matrix \<Rightarrow> matrix" where
  "augment a = map2 (\<lambda>row ident_row. row @ ident_row) a (identity (length a))"

definition invert_matrix :: "matrix \<Rightarrow> error + matrix" where
  "invert_matrix a =
     (let n = length a
      in case gauss_jordan_loop n [0..<n] (augment a) of
           Inl e \<Rightarrow> Inl e
         | Inr aug \<Rightarrow> Inr (map (drop n) aug))"





subsection \<open>Standardization\<close>

text \<open>
  The two accumulation loops of \<^verbatim>\<open>standardize\<close> have one shape: for every row and
  every \<^verbatim>\<open>(j, v)\<close> of \<^verbatim>\<open>enumerate(row)\<close>, add a term to entry \<open>j\<close> of a list
  that starts as \<open>d\<close> zeros. \<^verbatim>\<open>x[0]\<close> on an empty list, an entry beyond \<open>d\<close> and
  \<^verbatim>\<open>row[j]\<close> beyond a short row all raise \<^verbatim>\<open>IndexError\<close>.
\<close>

definition column_accumulate :: "(nat \<Rightarrow> real \<Rightarrow> real) \<Rightarrow> matrix \<Rightarrow> nat \<Rightarrow> real list" where
  "column_accumulate f x d =
     fold (\<lambda>row acc. fold (\<lambda>(j, v) acc. acc[j := acc ! j + f j v]) (enumerate 0 row) acc)
       x (replicate d 0)"

definition standardize :: "matrix \<Rightarrow> error + (matrix \<times> real list \<times> real list)" where
  "standardize x =
     (if x = [] then Inl IndexError
      else (let n = length x; d = length (x ! 0)
            in if (\<exists>row \<in> set x. length row \<noteq> d) then Inl IndexError
               else (let means0 = column_accumulate (\<lambda>j v. v) x d;
                         means = map (\<lambda>m. m / real n) means0;
                         stds0 = column_accumulate (\<lambda>j v. (v - means ! j)\<^sup>2) x d;
                         stds1 = map (\<lambda>s. sqrt (s / real (max 1 (n - 1)))) stds0;
                         stds = map (\<lambda>s. if s > 1 / 10 ^ 9 then s else 1) stds1;
                         xz = map (\<lambda>row. map (\<lambda>j. (row ! j - means ! j) / stds ! j) [0..<d]) x
                     in Inr (xz, means, stds))))"

text \<open>
  The statistics the specification names: the mean of column \<open>j\<close> over all samples, and
  its sample standard deviation with the denominator \<open>n - 1\<close>, at least 1.
\<close>

definition col_mean :: "matrix \<Rightarrow> nat \<Rightarrow> real" where
  "col_mean x j = (\<Sum>i<length x. x ! i ! j) / real (length x)"

definition col_sample_std :: "matrix \<Rightarrow> nat \<Rightarrow> real" where
  "col_sample_std x j =
     sqrt ((\<Sum>i<length x. (x ! i ! j - col_mean x j)\<^sup>2) / real (max 1 (length x - 1)))"


subsection \<open>Ridge fit and prediction\<close>

text \<open>
  \<^verbatim>\<open>ridge_fit\<close>. The products with \<^verbatim>\<open>yc\<close> go through
  \<^verbatim>\<open>zip(..., strict=True)\<close>, which raises when \<^verbatim>\<open>y\<close> is not as long as
  \<^verbatim>\<open>x\<close> and there is a column to multiply.
\<close>

definition add_l2_diagonal :: "matrix \<Rightarrow> nat \<Rightarrow> real \<Rightarrow> matrix" where
  "add_l2_diagonal xtx d l2 = fold (\<lambda>i m. m[i := (m ! i)[i := m ! i ! i + l2]]) [0..<d] xtx"

definition ridge_fit ::
  "matrix \<Rightarrow> real list \<Rightarrow> real \<Rightarrow> error + (real list \<times> real \<times> real list \<times> real list)" where
  "ridge_fit x y l2 =
     (case standardize x of
        Inl e \<Rightarrow> Inl e
      | Inr (xz, means, stds) \<Rightarrow>
          (let n = length xz; d = length (xz ! 0);
               y_mean = sum_list y / real n;
               yc = map (\<lambda>v. v - y_mean) y;
               xt = mat_transpose xz;
               xtx = add_l2_diagonal (mat_mul xt xz) d l2
           in if d > 0 \<and> length y \<noteq> n then Inl ValueError_zip
              else (case invert_matrix xtx of
                      Inl e \<Rightarrow> Inl e
                    | Inr inv_m \<Rightarrow> Inr (mat_vec_mul inv_m (mat_vec_mul xt yc), y_mean, means, stds))))"

definition predict_row :: "real list \<Rightarrow> real list \<Rightarrow> real \<Rightarrow> real list \<Rightarrow> real list \<Rightarrow> real" where
  "predict_row x w bias means stds =
     (let xz = map (\<lambda>j. (x ! j - means ! j) / stds ! j) [0..<length x]
      in dot xz w + bias)"

subsection \<open>Evaluation metrics\<close>

record metrics =
  mae :: real
  rmse :: real
  r2 :: real

text \<open>\<^verbatim>\<open>metrics\<close> of \<^verbatim>\<open>ai_train.py\<close>.\<close>

definition metrics_train :: "real list \<Rightarrow> real list \<Rightarrow> error + metrics" where
  "metrics_train y_true y_pred =
     (let n = length y_true
      in if length y_pred \<noteq> n then Inl ValueError_zip
         else if n = 0 then Inl ZeroDivisionError
         else (let err = map2 (\<lambda>yt yp. yp - yt) y_true y_pred;
                   mae_v = sum_list (map abs err) / real n;
                   rmse_v = sqrt (sum_list (map (\<lambda>e. e * e) err) / real n);
                   y_mean = sum_list y_true / real n;
                   ss_tot = sum_list (map (\<lambda>yt. (yt - y_mean)\<^sup>2) y_true);
                   ss_res = sum_list (map2 (\<lambda>yt yp. (yt - yp)\<^sup>2) y_true y_pred);
                   r2_v = 1 - (if ss_tot > 1 / 10 ^ 12 then ss_res / ss_tot else 0)
               in Inr \<lparr>mae = mae_v, rmse = rmse_v, r2 = r2_v\<rparr>))"

text \<open>\<^verbatim>\<open>metrics\<close> of \<^verbatim>\<open>ai_power_train.py\<close>.\<close>

definition metrics_power :: "real list \<Rightarrow> real list \<Rightarrow> error + metrics" where
  "metrics_power y_true y_pred =
     (let n = length y_true
      in if length y_pred \<noteq> n then Inl ValueError_zip
         else if n = 0 then Inl ZeroDivisionError
         else (let mae_v = sum_list (map2 (\<lambda>a b. \<bar>a - b\<bar>) y_true y_pred) / real n;
                   mse = sum_list (map2 (\<lambda>a b. (a - b)\<^sup>2) y_true y_pred) / real n;
                   rmse_v = sqrt mse;
                   y_mean = sum_list y_true / real n;
                   ss_tot = sum_list (map (\<lambda>v. (v - y_mean)\<^sup>2) y_true);
                   ss_res = sum_list (map2 (\<lambda>a b. (a - b)\<^sup>2) y_true y_pred);
                   r2_v = (if ss_tot > 1 / 10 ^ 12 then 1 - (ss_res / ss_tot) else 0)
               in Inr \<lparr>mae = mae_v, rmse = rmse_v, r2 = r2_v\<rparr>))"

text \<open>
  The quantities the specification names: the residual and the total sum of squares.
\<close>

definition SS_res :: "real list \<Rightarrow> real list \<Rightarrow> real" where
  "SS_res y_true y_pred = (\<Sum>i<length y_true. (y_true ! i - y_pred ! i)\<^sup>2)"

definition SS_tot :: "real list \<Rightarrow> real" where
  "SS_tot y_true =
     (\<Sum>i<length y_true. (y_true ! i - sum_list y_true / real (length y_true))\<^sup>2)"

section \<open>Next-step training pipeline (\<^verbatim>\<open>main\<close> of \<^verbatim>\<open>ai_train.py\<close>)\<close>

text \<open>
  \<^verbatim>\<open>_seasonal_temp\<close> of \<^verbatim>\<open>ai_train.py\<close>, the copy of \<open>seasonal_temperature\<close>
  that fills in a missing temperature.
\<close>

definition seasonal_temp :: "datetime \<Rightarrow> string \<Rightarrow> real" where
  "seasonal_temp ts city_name =
     (let day = int (dt_yday ts);
          base = 16 + 7 * sin (2 * pi * real_of_int (day - 170) / 365);
          coast_bias =
            (if city_name \<in> {''Porto'', ''Matosinhos'', ''Vila Nova de Gaia'', ''Aveiro''}
             then - 1 else 0)
      in base + coast_bias)"

definition feature_names_train :: "string list" where
  "feature_names_train =
     [''last_watts'', ''hour_sin'', ''hour_cos'', ''dow_sin'', ''dow_cos'', ''is_weekend'',
      ''temp_c'', ''contracted_power_kva'', ''tariff_simples'', ''tariff_bihorario'',
      ''segment_residential'', ''segment_sme'', ''segment_industrial'', ''home_area_m2'',
      ''household_size'', ''has_solar'', ''ev_count'']"

text \<open>
  The JSON document \<^verbatim>\<open>main\<close> writes (its constant \<^verbatim>\<open>notes\<close> text is left out).
\<close>

record train_payload =
  tp_version :: nat
  tp_trained_at :: string
  tp_interval_minutes :: nat
  tp_l2 :: real
  tp_feature_names :: "string list"
  tp_mean :: "real list"
  tp_std :: "real list"
  tp_weights :: "real list"
  tp_bias :: real
  tp_metrics :: metrics

text \<open>
  The split of \<^verbatim>\<open>main\<close>: \<^verbatim>\<open>idx = list(range(len(x)))\<close>,
  \<^verbatim>\<open>random.Random(seed).shuffle(idx)\<close>, \<^verbatim>\<open>split = int(len(idx) * 0.8)\<close>,
  \<^verbatim>\<open>idx[:split]\<close> and \<^verbatim>\<open>idx[split:]\<close>. The library's shuffle is the parameter
  \<open>shuffle\<close>: the list a generator seeded with \<open>seed\<close> leaves in place of the list
  it is given.
\<close>

definition train_test_split ::
  "(int \<Rightarrow> nat list \<Rightarrow> nat list) \<Rightarrow> int \<Rightarrow> nat \<Rightarrow> nat list \<times> nat list" where
  "train_test_split shuffle seed n =
     (let idx = shuffle seed [0..<n];
          split = nat \<lfloor>real (length idx) * 0.8\<rfloor>;
          tr_idx = take split idx;
          te_idx = drop split idx
      in (tr_idx, te_idx))"

text \<open>
  \<^verbatim>\<open>main\<close>, from the loaded customers and training pairs on. The database gives
  \<open>no_customers\<close> (\<^verbatim>\<open>not customer_map\<close>) and the pairs \<open>x\<close>, \<open>y\<close> of
  \<^verbatim>\<open>load_training_pairs\<close>; \<open>now\<close> is the clock reading; \<open>fs\<close> is the content of
  the output file, \<open>None\<close> while it does not exist. The result is the exception or
  normal return, with the content of the file afterwards.
\<close>

definition main_train ::
  "(int \<Rightarrow> nat list \<Rightarrow> nat list) \<Rightarrow> string \<Rightarrow> bool \<Rightarrow> matrix \<Rightarrow> real list \<Rightarrow> int \<Rightarrow> real
     \<Rightarrow> train_payload option \<Rightarrow> (error + unit) \<times> train_payload option" where
  "main_train shuffle now no_customers x y seed l2 fs =
     (if no_customers then (Inl SystemExit_no_customers, fs)
      else if length x < 200 then (Inl (SystemExit_few_samples (length x)), fs)
      else (let (tr_idx, te_idx) = train_test_split shuffle seed (length x);
                x_tr = map (\<lambda>i. x ! i) tr_idx;
                y_tr = map (\<lambda>i. y ! i) tr_idx;
                x_te = map (\<lambda>i. x ! i) te_idx;
                y_te = map (\<lambda>i. y ! i) te_idx
            in case ridge_fit x_tr y_tr l2 of
                 Inl e \<Rightarrow> (Inl e, fs)
               | Inr (w, bias, means, stds) \<Rightarrow>
                   (let preds = map (\<lambda>row. predict_row row w bias means stds) x_te
                    in case metrics_train y_te preds of
                         Inl e \<Rightarrow> (Inl e, fs)
                       | Inr m \<Rightarrow>
                           (Inr (),
                            Some \<lparr>tp_version = 1, tp_trained_at = now,
                                  tp_interval_minutes = INTERVAL_MINUTES, tp_l2 = l2,
                                  tp_feature_names = feature_names_train,
                                  tp_mean = means, tp_std = stds, tp_weights = w,
                                  tp_bias = bias, tp_metrics = m\<rparr>))))"

section \<open>Power-sizing training pipeline (\<^verbatim>\<open>main\<close> of \<^verbatim>\<open>ai_power_train.py\<close>)\<close>

definition feature_names_power :: "string list" where
  "feature_names_power =
     [''contracted_power_kva'', ''peak_watts_30d'', ''avg_watts_30d'', ''home_area_m2'',
      ''household_size'', ''has_solar'', ''ev_count'', ''segment_residential'',
      ''segment_sme'', ''segment_industrial'']"

record power_payload =
  pp_version :: nat
  pp_trained_at :: string
  pp_l2 :: real
  pp_feature_names :: "string list"
  pp_mean :: "real list"
  pp_std :: "real list"
  pp_weights :: "real list"
  pp_bias :: real
  pp_metrics :: metrics

definition power_features :: "power_customer \<Rightarrow> real \<Rightarrow> real \<Rightarrow> real list" where
  "power_features c peak30 avg30 =
     [pc_contracted_power_kva c, peak30, avg30, pc_home_area_m2 c,
      real_of_int (pc_household_size c), real_of_int (pc_has_solar c),
      real_of_int (pc_ev_count c),
      (if pc_segment c = ''residential'' then 1 else 0),
      (if pc_segment c = ''sme'' then 1 else 0),
      (if pc_segment c = ''industrial'' then 1 else 0)]"

text \<open>
  The loop of \<^verbatim>\<open>main\<close> over the customers. The two queries are parameters:
  \<open>get_latest_ts\<close> gives the latest timestamp of a customer, \<open>None\<close> without
  telemetry, and \<open>get_stats_30d\<close> the peak and the average of the 30 days before it.
  A customer whose \<^verbatim>\<open>latest\<close> is \<^verbatim>\<open>None\<close> or empty is skipped.
\<close>

definition has_history :: "(string \<Rightarrow> string option) \<Rightarrow> power_customer \<Rightarrow> bool" where
  "has_history get_latest_ts c =
     (case get_latest_ts (pc_id c) of None \<Rightarrow> False | Some latest \<Rightarrow> latest \<noteq> [])"

fun power_dataset ::
  "(string \<Rightarrow> string option) \<Rightarrow> (string \<Rightarrow> string \<Rightarrow> real \<times> real) \<Rightarrow> power_customer list
     \<Rightarrow> matrix \<times> real list" where
  "power_dataset get_latest_ts get_stats_30d [] = ([], [])"
| "power_dataset get_latest_ts get_stats_30d (c # cs) =
     (let (x, y) = power_dataset get_latest_ts get_stats_30d cs
      in case get_latest_ts (pc_id c) of
           None \<Rightarrow> (x, y)
         | Some latest \<Rightarrow>
             if latest = [] then (x, y)
             else (let (peak30, avg30) = get_stats_30d (pc_id c) latest
                   in (power_features c peak30 avg30 # x,
                       target_ideal_kva c peak30 avg30 # y)))"

text \<open>
  \<^verbatim>\<open>main\<close>: \<open>l2\<close> is the value of the environment variable, \<open>fs\<close> the content of
  the output file. \<^verbatim>\<open>ridge_fit\<close> receives the whole of \<open>x\<close> and \<open>y\<close>, and the
  predictions and \<^verbatim>\<open>metrics\<close> range over the same \<open>x\<close> and \<open>y\<close>.
\<close>

definition main_power ::
  "(string \<Rightarrow> string option) \<Rightarrow> (string \<Rightarrow> string \<Rightarrow> real \<times> real) \<Rightarrow> string
     \<Rightarrow> power_customer list \<Rightarrow> real \<Rightarrow> power_payload option
     \<Rightarrow> (error + unit) \<times> power_payload option" where
  "main_power get_latest_ts get_stats_30d now customers l2 fs =
     (let (x, y) = power_dataset get_latest_ts get_stats_30d customers
      in if length x < 10 then (Inl SystemExit_few_customers, fs)
         else (case ridge_fit x y l2 of
                 Inl e \<Rightarrow> (Inl e, fs)
               | Inr (w, b, means, stds) \<Rightarrow>
                   (let preds = map (\<lambda>row. predict_row row w b means stds) x
                    in case metrics_power y preds of
                         Inl e \<Rightarrow> (Inl e, fs)
                       | Inr m \<Rightarrow>
                           (Inr (),
                            Some \<lparr>pp_version = 1, pp_trained_at = now, pp_l2 = l2,
                                  pp_feature_names = feature_names_power,
                                  pp_mean = means, pp_std = stds, pp_weights = w,
                                  pp_bias = b, pp_metrics = m\<rparr>))))"

text \<open>
  The positions of the samples each pipeline fits on and evaluates on, as lists of
  indices into \<open>x\<close>: \<open>train_test_split\<close> for the next-step pipeline; for the
  power-sizing pipeline every index, twice.
\<close>

definition power_fit_eval_idx :: "nat \<Rightarrow> nat list \<times> nat list" where
  "power_fit_eval_idx n = ([0..<n], [0..<n])"

text \<open>
  Fitting on the samples at the positions \<open>fit_idx\<close> and evaluating, with the metrics
  function \<open>metr\<close>, on the samples at the positions \<open>eval_idx\<close>; and the metrics of
  such a run, \<open>None\<close> when it raised.
\<close>

definition fit_and_evaluate ::
  "(real list \<Rightarrow> real list \<Rightarrow> error + metrics) \<Rightarrow> matrix \<Rightarrow> real list \<Rightarrow> nat list \<Rightarrow> nat list
     \<Rightarrow> real \<Rightarrow> error + (real list \<times> real \<times> real list \<times> real list \<times> metrics)" where
  "fit_and_evaluate metr x y fit_idx eval_idx l2 =
     (case ridge_fit (map (\<lambda>i. x ! i) fit_idx) (map (\<lambda>i. y ! i) fit_idx) l2 of
        Inl e \<Rightarrow> Inl e
      | Inr (w, b, means, stds) \<Rightarrow>
          (case metr (map (\<lambda>i. y ! i) eval_idx)
                  (map (\<lambda>i. predict_row (x ! i) w b means stds) eval_idx) of
             Inl e \<Rightarrow> Inl e
           | Inr m \<Rightarrow> Inr (w, b, means, stds, m)))"

definition metrics_of_run ::
  "error + (real list \<times> real \<times> real list \<times> real list \<times> metrics) \<Rightarrow> metrics option" where
  "metrics_of_run r = (case r of Inl e \<Rightarrow> None | Inr (w, b, means, stds, m) \<Rightarrow> Some m)"

section \<open>Floating-point arithmetic as a parameter\<close>

text \<open>
  The operations of Python's \<^verbatim>\<open>float\<close> that \<^verbatim>\<open>target_ideal_kva\<close> and
  \<^verbatim>\<open>standardize\<close> use, over a type \<open>'f\<close> of floats: the float of a literal or of an
  \<^verbatim>\<open>int\<close> (\<open>f_lit\<close>), the four operations, \<^verbatim>\<open>x ** 2\<close>, \<^verbatim>\<open>math.sqrt\<close>, the
  comparison \<^verbatim>\<open><\<close>, and \<^verbatim>\<open>math.ceil\<close>, which returns an \<^verbatim>\<open>int\<close> or raises on
  an infinity or a \<^verbatim>\<open>nan\<close>. No divisor of the two functions is zero (constants, a
  length, and a deviation that is above \<^verbatim>\<open>1e-9\<close> or replaced by \<^verbatim>\<open>1.0\<close>), and
  the argument of \<^verbatim>\<open>math.sqrt\<close> is a sum of squares, so neither raises.
\<close>

record 'f arith =
  f_lit :: "real \<Rightarrow> 'f"
  f_add :: "'f \<Rightarrow> 'f \<Rightarrow> 'f"
  f_sub :: "'f \<Rightarrow> 'f \<Rightarrow> 'f"
  f_mul :: "'f \<Rightarrow> 'f \<Rightarrow> 'f"
  f_div :: "'f \<Rightarrow> 'f \<Rightarrow> 'f"
  f_sq :: "'f \<Rightarrow> 'f"
  f_sqrt :: "'f \<Rightarrow> 'f"
  f_less :: "'f \<Rightarrow> 'f \<Rightarrow> bool"
  f_ceil :: "'f \<Rightarrow> error + int"

text \<open>
  Python's \<^verbatim>\<open>max(a, b)\<close> is \<open>b\<close> when \<^verbatim>\<open>b > a\<close> and \<open>a\<close> otherwise;
  \<^verbatim>\<open>min(a, b)\<close> is \<open>b\<close> when \<^verbatim>\<open>b < a\<close> and \<open>a\<close> otherwise.
\<close>

definition py_max :: "'f arith \<Rightarrow> 'f \<Rightarrow> 'f \<Rightarrow> 'f" where
  "py_max A a b = (if f_less A a b then b else a)"

definition py_min :: "'f arith \<Rightarrow> 'f \<Rightarrow> 'f \<Rightarrow> 'f" where
  "py_min A a b = (if f_less A b a then b else a)"

text \<open>\<^verbatim>\<open>target_ideal_kva\<close> of \<^verbatim>\<open>ai_power_train.py\<close>, in the arithmetic \<open>A\<close>.\<close>

definition target_ideal_kva_fl :: "'f arith \<Rightarrow> power_customer \<Rightarrow> 'f \<Rightarrow> 'f \<Rightarrow> error + 'f" where
  "target_ideal_kva_fl A customer peak_watts_30d avg_watts_30d =
     (let peak_kva_v =
            (if f_less A (f_lit A 0) peak_watts_30d
             then f_div A (f_div A peak_watts_30d (f_lit A 1000)) (f_lit A 0.85)
             else f_lit A 1);
          avg_kva_v =
            (if f_less A (f_lit A 0) avg_watts_30d
             then f_mul A (f_div A avg_watts_30d (f_lit A 1000)) (f_lit A 2.2)
             else f_lit A 1);
          seg_margin_v = f_lit A (seg_margin (pc_segment customer));
          base = f_mul A (py_max A peak_kva_v avg_kva_v) (f_add A (f_lit A 1) seg_margin_v)
      in case f_ceil A (f_mul A base (f_lit A 10)) of
           Inl e \<Rightarrow> Inl e
         | Inr k \<Rightarrow>
             Inr (py_min A (f_lit A 60)
                    (py_max A (f_lit A 1) (f_div A (f_lit A (real_of_int k)) (f_lit A 10)))))"

text \<open>
  The target as the specification words it, in the arithmetic \<open>A\<close>: the larger of the
  two converted statistics, inflated by the margin of the segment, rounded up to a tenth
  and clamped.
\<close>

definition spec_ideal_kva_fl :: "'f arith \<Rightarrow> string \<Rightarrow> 'f \<Rightarrow> 'f \<Rightarrow> error + 'f" where
  "spec_ideal_kva_fl A sg peak avg =
     (case f_ceil A
            (f_mul A
               (f_mul A
                  (py_max A (f_div A (f_div A peak (f_lit A 1000)) (f_lit A 0.85))
                            (f_mul A (f_div A avg (f_lit A 1000)) (f_lit A 2.2)))
                  (f_add A (f_lit A 1) (f_lit A (spec_margin sg))))
               (f_lit A 10)) of
        Inl e \<Rightarrow> Inl e
      | Inr k \<Rightarrow>
          Inr (py_min A (f_lit A 60)
                 (py_max A (f_lit A 1) (f_div A (f_lit A (real_of_int k)) (f_lit A 10)))))"






text \<open>
  Two arithmetics. \<open>exact_arith\<close> computes with real numbers and never rounds; with it
  the functions above are the exact definitions of the earlier sections.
  \<open>double_arith\<close> is the arithmetic of IEEE binary64 in round-to-nearest, ties to even,
  that Python's \<^verbatim>\<open>float\<close> has, on the numbers whose results stay in the normal range:
  a double is a real \<open>m * 2 ^ e\<close> with \<open>\<bar>m\<bar> < 2 ^ 53\<close>, and every operation is the exact
  one followed by \<open>rnd\<close>, the rounding to 53 significant bits (\<^verbatim>\<open>x ** 2\<close> is the
  rounded square; where it is evaluated below the square is itself a double). It leaves
  out overflow, subnormal numbers, infinities and \<^verbatim>\<open>nan\<close>, which the inputs it is used
  on below do not reach.
\<close>

definition exact_arith :: "real arith" where
  "exact_arith =
     \<lparr>f_lit = (\<lambda>r. r), f_add = (\<lambda>a b. a + b), f_sub = (\<lambda>a b. a - b),
      f_mul = (\<lambda>a b. a * b), f_div = (\<lambda>a b. a / b), f_sq = (\<lambda>a. a\<^sup>2), f_sqrt = sqrt,
      f_less = (\<lambda>a b. a < b), f_ceil = (\<lambda>a. Inr \<lceil>a\<rceil>)\<rparr>"

definition expo :: "real \<Rightarrow> int" where
  "expo x = \<lfloor>log 2 \<bar>x\<bar>\<rfloor>"

definition round_half_even :: "real \<Rightarrow> int" where
  "round_half_even y =
     (let f = \<lfloor>y\<rfloor>; r = y - of_int f
      in if r < 1 / 2 then f else if 1 / 2 < r then f + 1 else if even f then f else f + 1)"

definition rnd :: "real \<Rightarrow> real" where
  "rnd x =
     (if x = 0 then 0
      else (let e = expo x - 52
            in of_int (round_half_even (x / 2 powr of_int e)) * 2 powr of_int e))"

definition double_arith :: "real arith" where
  "double_arith =
     \<lparr>f_lit = rnd, f_add = (\<lambda>a b. rnd (a + b)), f_sub = (\<lambda>a b. rnd (a - b)),
      f_mul = (\<lambda>a b. rnd (a * b)), f_div = (\<lambda>a b. rnd (a / b)), f_sq = (\<lambda>a. rnd (a * a)),
      f_sqrt = (\<lambda>a. rnd (sqrt a)), f_less = (\<lambda>a b. a < b), f_ceil = (\<lambda>a. Inr \<lceil>a\<rceil>)\<rparr>"

section \<open>Concrete inputs\<close>

text \<open>
  A generator that always draws the midpoint (state: the number of draws so far), a
  residential customer with a unit price of 0.30 and a contracted power of 3.45 kVA, and
  two timestamps: Wednesday 19 June (day 170) at 20:30 and a day 261.
\<close>

definition midpoint_rng :: "nat rng" where
  "midpoint_rng =
     \<lparr>rng_gauss = (\<lambda>mu sigma s. (mu, Suc s)),
      rng_random = (\<lambda>s. (1 / 2, Suc s)),
      rng_uniform = (\<lambda>a b s. (a + (b - a) / 2, Suc s))\<rparr>"

definition customer0 :: customer where
  "customer0 =
     \<lparr>id_customer = ''C_AAAAAAAA'', name = ''Ana Silva'', segment = ''residential'',
      city = ''Porto'', contracted_power_kva = 3.45, tariff = ''Simples'', utility = ''EDP'',
      price_eur_per_kwh = 0.30, fixed_daily_fee_eur = 0.22, has_smart_meter = 1,
      home_area_m2 = 95, household_size = 3, locality_type = ''Urbana'',
      dwelling_type = ''Apartamento'', build_year_band = ''2000-2014'',
      heating_sources = ''Gas'', has_solar = 0, ev_count = 0,
      alert_sensitivity = ''Alta'', main_appliances = ''''\<rparr>"

definition day170 :: datetime where
  "day170 = \<lparr>dt_yday = 170, dt_hour = 20, dt_minute = 30, dt_weekday = 2\<rparr>"

definition day261 :: datetime where
  "day261 = \<lparr>dt_yday = 261, dt_hour = 20, dt_minute = 30, dt_weekday = 2\<rparr>"


definition swap_matrix :: matrix where
  "swap_matrix = [[0, 2], [1, 0]]"

text \<open>A matrix of two samples and two features, the second feature constant.\<close>

definition sample_matrix :: matrix where
  "sample_matrix = [[1, 2], [3, 2]]"

text \<open>
  A stand-in for the library shuffle that rotates the list by the seed; 200 training
  pairs; ten customers with telemetry, and the two queries answering for them.
\<close>

definition rotate_shuffle :: "int \<Rightarrow> nat list \<Rightarrow> nat list" where
  "rotate_shuffle seed xs = rotate (nat \<bar>seed\<bar>) xs"

definition pairs_x :: matrix where
  "pairs_x = replicate 200 [1, 2]"

definition pairs_y :: "real list" where
  "pairs_y = replicate 200 3"

definition ten_customers :: "power_customer list" where
  "ten_customers = replicate 10 residential0"

definition latest0 :: "string \<Rightarrow> string option" where
  "latest0 cid = Some ''2026-01-01T00:00:00+00:00''"

definition stats0 :: "string \<Rightarrow> string \<Rightarrow> real \<times> real" where
  "stats0 cid end_iso = (5000, 1200)"


section \<open>Ideal-power target: theorems\<close>

lemma ceil_108: "\<lceil>(54 / 5 :: real)\<rceil> = 11"
  by (simp add: ceiling_eq_iff)

lemma ceil_115: "\<lceil>(23 / 2 :: real)\<rceil> = 12"
  by (simp add: ceiling_eq_iff)

lemma seg_margin_spec:
  assumes "sg \<in> {''residential'', ''sme'', ''industrial''}"
  shows "seg_margin sg = spec_margin sg"
proof -
  from assms consider "sg = ''residential''" | "sg = ''sme''" | "sg = ''industrial''"
    by blast
  then show ?thesis
  proof cases
    case 1 then show ?thesis by (simp add: seg_margin_def spec_margin_def)
  next
    case 2 then show ?thesis by (simp add: seg_margin_def spec_margin_def)
  next
    case 3 then show ?thesis by (simp add: seg_margin_def spec_margin_def)
  qed
qed

section \<open>Rounding to double precision: lemmas\<close>

lemma expo_bounds:
  assumes "x \<noteq> 0"
  shows "2 powr of_int (expo x) \<le> \<bar>x\<bar>" and "\<bar>x\<bar> < 2 powr (of_int (expo x) + 1)"
proof -
  have pos: "0 < \<bar>x\<bar>" using assms by simp
  have "\<lfloor>log 2 \<bar>x\<bar>\<rfloor> = expo x" by (simp add: expo_def)
  then have "2 powr of_int (expo x) \<le> \<bar>x\<bar> \<and> \<bar>x\<bar> < 2 powr (of_int (expo x) + 1)"
    using floor_log_eq_powr_iff [OF pos, of 2 "expo x"] by simp
  then show "2 powr of_int (expo x) \<le> \<bar>x\<bar>" and "\<bar>x\<bar> < 2 powr (of_int (expo x) + 1)"
    by simp_all
qed


lemma round_half_even_error: "\<bar>of_int (round_half_even y) - y\<bar> \<le> 1 / 2"
proof -
  have "of_int \<lfloor>y\<rfloor> \<le> y" "y < of_int \<lfloor>y\<rfloor> + 1" by linarith+
  then show ?thesis
    unfolding round_half_even_def Let_def by (auto split: if_splits)
qed

lemma round_half_even_of_int: "round_half_even (of_int k) = k"
  by (simp add: round_half_even_def)

lemma rnd_zero: "rnd 0 = 0"
  by (simp add: rnd_def)

lemma rnd_error:
  "\<bar>rnd x - x\<bar> \<le> \<bar>x\<bar> / 2 ^ 53"
proof (cases "x = 0")
  case True
  then show ?thesis by (simp add: rnd_def)
next
  case False
  define e where "e = expo x - 52"
  define p where "p = 2 powr real_of_int e"
  have p: "0 < p" by (simp add: p_def)
  have r: "rnd x = of_int (round_half_even (x / p)) * p"
    using False by (simp add: rnd_def Let_def e_def p_def)
  have "\<bar>rnd x - x\<bar> = \<bar>of_int (round_half_even (x / p)) - x / p\<bar> * p"
  proof -
    have "rnd x - x = (of_int (round_half_even (x / p)) - x / p) * p"
      using p unfolding r by (simp add: field_simps)
    then show ?thesis using p by (simp add: abs_mult)
  qed
  also have "\<dots> \<le> (1 / 2) * p"
    using round_half_even_error [of "x / p"] p by (intro mult_right_mono) simp_all
  also have "p = 2 powr of_int (expo x) / 2 ^ 52"
  proof -
    have "real_of_int e = of_int (expo x) - 52" by (simp add: e_def)
    then have "p = 2 powr (of_int (expo x) - 52)" by (simp add: p_def)
    also have "\<dots> = 2 powr of_int (expo x) / 2 powr 52" by (rule powr_diff)
    finally show ?thesis by simp
  qed
  also have "(1 / 2) * (2 powr of_int (expo x) / 2 ^ 52) \<le> (1 / 2) * (\<bar>x\<bar> / 2 ^ 52)"
    using expo_bounds(1) [OF False] by (intro mult_left_mono divide_right_mono) simp_all
  finally show ?thesis by simp
qed

lemma rnd_representable:
  assumes "\<bar>m\<bar> < 2 ^ 53"
  shows "rnd (of_int m * 2 powr of_int j) = of_int m * 2 powr of_int j"
proof (cases "m = 0")
  case True
  then show ?thesis by (simp add: rnd_def)
next
  case False
  define x where "x = of_int m * 2 powr real_of_int j"
  have x0: "x \<noteq> 0" using False by (simp add: x_def)
  define e where "e = expo x - 52"
  have "\<bar>x\<bar> = \<bar>real_of_int m\<bar> * 2 powr of_int j" by (simp add: x_def abs_mult)
  also have "\<dots> < 2 ^ 53 * 2 powr of_int j"
  proof -
    have "\<bar>real_of_int m\<bar> < 2 ^ 53"
    proof -
      have "real_of_int \<bar>m\<bar> < real_of_int (2 ^ 53)" using assms by (simp only: of_int_less_iff)
      then show ?thesis by simp
    qed
    then show ?thesis by (intro mult_strict_right_mono) simp_all
  qed
  also have "\<dots> = 2 powr (53 + of_int j)" by (simp add: powr_add)
  finally have up: "\<bar>x\<bar> < 2 powr (53 + real_of_int j)" .
  have "2 powr of_int (expo x) < 2 powr (53 + real_of_int j)"
    using expo_bounds(1) [OF x0] up by linarith
  then have "real_of_int (expo x) < 53 + real_of_int j" by simp
  then have "expo x < 53 + j" by linarith
  then have ej: "e \<le> j" by (simp add: e_def)
  define k where "k = nat (j - e)"
  have jk: "real_of_int j = real_of_int e + real k" using ej by (simp add: k_def)
  have pw: "2 powr real_of_int j = 2 powr real_of_int e * 2 ^ k"
    unfolding jk by (simp add: powr_add powr_realpow)
  have pe: "0 < 2 powr real_of_int e" by simp
  have y: "x / 2 powr real_of_int e = of_int (m * 2 ^ k)"
    unfolding x_def pw using pe by simp
  have "rnd x = of_int (round_half_even (x / 2 powr real_of_int e)) * 2 powr real_of_int e"
    using x0 by (simp add: rnd_def Let_def e_def)
  also have "\<dots> = of_int (m * 2 ^ k) * 2 powr real_of_int e"
    unfolding y by (simp only: round_half_even_of_int)
  also have "\<dots> = x" unfolding x_def pw by simp
  finally show ?thesis unfolding x_def .
qed

lemma rnd_int:
  assumes "\<bar>m\<bar> < 2 ^ 53"
  shows "rnd (of_int m) = of_int m"
  using rnd_representable [OF assms, of 0] by simp

section \<open>Ideal-power target in floating-point arithmetic: theorems\<close>

lemma rnd_between:
  assumes "0 < lo" "lo \<le> x" "x \<le> hi"
  shows "lo * (999 / 1000) \<le> rnd x \<and> rnd x \<le> hi * (1001 / 1000)"
proof -
  have x: "0 < x" using assms by linarith
  have "\<bar>x\<bar> / 2 ^ 53 \<le> \<bar>x\<bar> / 1000"
    by (intro divide_left_mono) simp_all
  with rnd_error [of x] have "\<bar>rnd x - x\<bar> \<le> x / 1000" using x by simp
  then have "x - x / 1000 \<le> rnd x" and "rnd x \<le> x + x / 1000" by linarith+
  with assms show ?thesis by simp
qed

lemma rnd_small_ints:
  "rnd 1 = 1" "rnd 10 = 10" "rnd 11 = 11" "rnd 60 = 60"
  using rnd_int [of 1] rnd_int [of 10] rnd_int [of 11] rnd_int [of 60] by simp_all

lemma double_empty_window_ceil:
  "\<lceil>rnd (rnd (1 * rnd (1 + rnd (8 / 100))) * 10)\<rceil> = 11"
proof -
  have a: "799 / 10000 \<le> rnd (8 / 100) \<and> rnd (8 / 100) \<le> 801 / 10000"
    using rnd_between [of "8 / 100" "8 / 100" "8 / 100"] by simp
  have v: "107 / 100 \<le> rnd (1 + rnd (8 / 100)) \<and> rnd (1 + rnd (8 / 100)) \<le> 109 / 100"
    using rnd_between [of "10799 / 10000" "1 + rnd (8 / 100)" "10801 / 10000"] a by simp
  have w: "106 / 100 \<le> rnd (1 * rnd (1 + rnd (8 / 100))) \<and>
           rnd (1 * rnd (1 + rnd (8 / 100))) \<le> 1095 / 1000"
    using rnd_between [of "107 / 100" "1 * rnd (1 + rnd (8 / 100))" "109 / 100"] v by simp
  have b: "105 / 10 \<le> rnd (rnd (1 * rnd (1 + rnd (8 / 100))) * 10) \<and>
           rnd (rnd (1 * rnd (1 + rnd (8 / 100))) * 10) \<le> 10999 / 1000"
    using rnd_between [of "106 / 10" "rnd (1 * rnd (1 + rnd (8 / 100))) * 10" "1095 / 100"] w
    by simp
  show ?thesis
    using b by (intro ceiling_unique) simp_all
qed

lemma rnd_eleven_tenths: "1 < rnd (11 / 10) \<and> rnd (11 / 10) < 60"
  using rnd_between [of "11 / 10" "11 / 10" "11 / 10"] by simp

lemma target_fl_double_empty_window:
  "target_ideal_kva_fl double_arith residential0 0 0 = Inr (rnd (11 / 10))"
proof -
  have seg: "seg_margin (pc_segment residential0) = 8 / 100"
    by (simp add: residential0_def seg_margin_def)
  show ?thesis
    unfolding target_ideal_kva_fl_def Let_def seg
    using double_empty_window_ceil rnd_eleven_tenths
    by (simp add: double_arith_def py_max_def py_min_def rnd_zero rnd_small_ints)
qed

lemma spec_fl_double_empty_window:
  "spec_ideal_kva_fl double_arith (pc_segment residential0) 0 0 = Inr 1"
  unfolding spec_ideal_kva_fl_def
  by (simp add: double_arith_def py_max_def py_min_def rnd_zero rnd_small_ints)

text \<open>
  C5, as the claim states it, fails where a statistic is zero, in the double arithmetic of
  the program: for a residential customer with an empty window the code returns the
  double nearest to 1.1, the stated formula returns 1.
\<close>

theorem target_ideal_kva_zero_counterexample:
  "target_ideal_kva_fl double_arith residential0 0 0
     \<noteq> spec_ideal_kva_fl double_arith (pc_segment residential0) 0 0"
  unfolding target_fl_double_empty_window spec_fl_double_empty_window
  using rnd_eleven_tenths by simp

text \<open>
  C5, amended: for a customer of one of the three segments and 30-day statistics that are
  both positive, the target is the larger of \<open>(peak / 1000) / 0.85\<close> and
  \<open>(avg / 1000) * 2.2\<close>, inflated by the margin of the segment (8% residential, 10% sme,
  15% industrial), rounded up to a tenth of a kVA as \<open>ceil (base * 10) / 10\<close> and clamped
  to \<open>[1, 60]\<close>, every operation being that of the program's floating-point arithmetic.
  The statement holds in every arithmetic \<open>A\<close>, the double arithmetic included, so the
  ceiling is taken of the rounded product.
\<close>

theorem target_ideal_kva_positive:
  assumes "f_less A (f_lit A 0) peak_watts_30d" and "f_less A (f_lit A 0) avg_watts_30d"
    and "pc_segment c \<in> {''residential'', ''sme'', ''industrial''}"
  shows "target_ideal_kva_fl A c peak_watts_30d avg_watts_30d
           = spec_ideal_kva_fl A (pc_segment c) peak_watts_30d avg_watts_30d"
  using assms(1,2) seg_margin_spec [OF assms(3)]
  by (simp add: target_ideal_kva_fl_def spec_ideal_kva_fl_def Let_def)

theorem target_ideal_kva_positive_witness:
  "f_less double_arith (f_lit double_arith 0) 5000 \<and>
   f_less double_arith (f_lit double_arith 0) 1200 \<and>
   pc_segment residential0 \<in> {''residential'', ''sme'', ''industrial''} \<and>
   target_ideal_kva_fl double_arith residential0 5000 1200
     = spec_ideal_kva_fl double_arith (pc_segment residential0) 5000 1200"
proof -
  have p: "f_less double_arith (f_lit double_arith 0) 5000"
    and a: "f_less double_arith (f_lit double_arith 0) 1200"
    by (simp_all add: double_arith_def rnd_zero)
  have seg: "pc_segment residential0 \<in> {''residential'', ''sme'', ''industrial''}"
    by (simp add: residential0_def)
  have "target_ideal_kva_fl double_arith residential0 5000 1200
     = spec_ideal_kva_fl double_arith (pc_segment residential0) 5000 1200"
    by (rule target_ideal_kva_positive [OF p a seg])
  with p a seg show ?thesis by (intro conjI)
qed

lemma py_max_exact: "py_max exact_arith a b = max a b"
  by (simp add: py_max_def exact_arith_def max_def)

lemma py_min_exact: "py_min exact_arith a b = min a b"
  by (simp add: py_min_def exact_arith_def min_def)

lemma exact_arith_ops:
  "f_lit exact_arith r = r" "f_add exact_arith a b = a + b" "f_sub exact_arith a b = a - b"
  "f_mul exact_arith a b = a * b" "f_div exact_arith a b = a / b" "f_sq exact_arith a = a\<^sup>2"
  "f_sqrt exact_arith a = sqrt a" "f_less exact_arith a b = (a < b)"
  "f_ceil exact_arith a = Inr \<lceil>a\<rceil>"
  by (simp_all add: exact_arith_def)

lemma target_ideal_kva_fl_exact:
  "target_ideal_kva_fl exact_arith c peak avg = Inr (target_ideal_kva c peak avg)"
  by (simp only: target_ideal_kva_fl_def target_ideal_kva_def peak_kva_def avg_kva_def
      py_max_exact py_min_exact exact_arith_ops Let_def sum.case)

lemma target_ideal_kva_zero_cases:
  "target_ideal_kva c 0 0 = real_of_int \<lceil>1 * (1 + seg_margin (pc_segment c)) * 10\<rceil> / 10 \<and>
   target_ideal_kva c 0 0 \<in> {11 / 10, 12 / 10}"
  by (simp add: target_ideal_kva_def peak_kva_def avg_kva_def seg_margin_def ceil_108 ceil_115)

text \<open>
  C10: a statistic that is not positive is replaced by the baseline of 1 kVA before the
  maximum and the margin: the peak term is 1 when the peak is not positive, the average
  term is 1 when the average is not positive, and the target is computed from these
  terms. With both statistics 0 the target is \<open>\<lceil>1.0 * (1 + margin) * 10\<rceil> / 10\<close>,
  which is 1.1 kVA for a residential customer and differs from the clamp of the formula
  evaluated at zero.
\<close>

theorem target_ideal_kva_baseline:
  "(peak_watts_30d \<le> 0 \<longrightarrow> peak_kva peak_watts_30d = 1) \<and>
   (avg_watts_30d \<le> 0 \<longrightarrow> avg_kva avg_watts_30d = 1) \<and>
   target_ideal_kva c peak_watts_30d avg_watts_30d =
     min 60 (max 1 (real_of_int
       \<lceil>max (peak_kva peak_watts_30d) (avg_kva avg_watts_30d)
          * (1 + seg_margin (pc_segment c)) * 10\<rceil> / 10)) \<and>
   target_ideal_kva c 0 0 = real_of_int \<lceil>1 * (1 + seg_margin (pc_segment c)) * 10\<rceil> / 10 \<and>
   (pc_segment c = ''residential'' \<longrightarrow> target_ideal_kva c 0 0 = 1.1) \<and>
   target_ideal_kva c 0 0 \<noteq>
     min 60 (max 1 (real_of_int
       \<lceil>max ((0 / 1000) / 0.85) ((0 / 1000) * 2.2) * (1 + seg_margin (pc_segment c)) * 10\<rceil> / 10))"
proof -
  have a: "peak_watts_30d \<le> 0 \<longrightarrow> peak_kva peak_watts_30d = 1"
    by (simp add: peak_kva_def)
  have b: "avg_watts_30d \<le> 0 \<longrightarrow> avg_kva avg_watts_30d = 1"
    by (simp add: avg_kva_def)
  have c: "target_ideal_kva c peak_watts_30d avg_watts_30d =
     min 60 (max 1 (real_of_int
       \<lceil>max (peak_kva peak_watts_30d) (avg_kva avg_watts_30d)
          * (1 + seg_margin (pc_segment c)) * 10\<rceil> / 10))"
    by (simp add: target_ideal_kva_def Let_def)
  have d: "pc_segment c = ''residential'' \<longrightarrow> target_ideal_kva c 0 0 = 1.1"
    by (simp add: target_ideal_kva_def peak_kva_def avg_kva_def seg_margin_def ceil_108)
  have e: "target_ideal_kva c 0 0 \<noteq>
     min 60 (max 1 (real_of_int
       \<lceil>max ((0 / 1000) / 0.85) ((0 / 1000) * 2.2) * (1 + seg_margin (pc_segment c)) * 10\<rceil> / 10))"
    using target_ideal_kva_zero_cases [of c] by auto
  have f: "target_ideal_kva c 0 0 = real_of_int \<lceil>1 * (1 + seg_margin (pc_segment c)) * 10\<rceil> / 10"
    using target_ideal_kva_zero_cases [of c] by (rule conjunct1)
  show ?thesis
    by (intro conjI) (rule a, rule b, rule c, rule f, rule d, rule e)
qed

theorem target_ideal_kva_baseline_witness:
  "(0::real) \<le> 0 \<and> pc_segment residential0 = ''residential'' \<and>
   peak_kva 0 = 1 \<and> avg_kva 0 = 1 \<and> target_ideal_kva residential0 0 0 = 1.1"
proof -
  have seg: "pc_segment residential0 = ''residential''"
    by (simp add: residential0_def)
  note t = target_ideal_kva_baseline [of 0 0 residential0]
  have p: "peak_kva 0 = 1" using t by simp
  have a: "avg_kva 0 = 1" using t by simp
  have r: "target_ideal_kva residential0 0 0 = 1.1"
    using t seg by (elim conjE) (erule (1) impE)
  show ?thesis using seg p a r by simp
qed

section \<open>Evaluation metrics: theorems\<close>

lemma SS_res_sum_list:
  "length y_pred = length y_true \<Longrightarrow>
   sum_list (map2 (\<lambda>a b. (a - b)\<^sup>2) y_true y_pred) = SS_res y_true y_pred"
  by (simp add: SS_res_def sum_list_sum_nth atLeast0LessThan)

lemma SS_tot_sum_list:
  "sum_list (map (\<lambda>v. (v - sum_list y_true / real (length y_true))\<^sup>2) y_true) = SS_tot y_true"
  by (simp add: SS_tot_def sum_list_sum_nth atLeast0LessThan)

text \<open>
  The evaluation of the power-sizing pipeline returns \<open>1 - SS_res / SS_tot\<close>, and 0 when
  \<open>SS_tot\<close> is at most \<open>1e-12\<close>.
\<close>

lemma metrics_power_r2:
  assumes "length y_pred = length y_true" "y_true \<noteq> []"
  shows "\<exists>m. metrics_power y_true y_pred = Inr m \<and>
     r2 m = (if SS_tot y_true > 1 / 10 ^ 12
             then 1 - SS_res y_true y_pred / SS_tot y_true else 0)"
  using assms by (simp add: metrics_power_def Let_def SS_res_sum_list SS_tot_sum_list)

text \<open>
  The evaluation of the next-step pipeline returns the same above the threshold, and 1
  (not 0) when \<open>SS_tot\<close> is at most \<open>1e-12\<close>.
\<close>

lemma metrics_train_r2:
  assumes "length y_pred = length y_true" "y_true \<noteq> []"
  shows "\<exists>m. metrics_train y_true y_pred = Inr m \<and>
     r2 m = (if SS_tot y_true > 1 / 10 ^ 12
             then 1 - SS_res y_true y_pred / SS_tot y_true else 1)"
  using assms by (simp add: metrics_train_def Let_def SS_res_sum_list SS_tot_sum_list)

lemma metrics_power_degenerate_r2:
  "metrics_power [3, 3] [4, 2] = Inr \<lparr>mae = 1, rmse = 1, r2 = 0\<rparr>"
  by (simp add: metrics_power_def)

text \<open>
  C2: on the constant target \<open>[3, 3]\<close> with predictions \<open>[4, 2]\<close> (\<open>SS_tot = 0\<close>,
  \<open>SS_res = 2\<close>) \<^verbatim>\<open>metrics\<close> of \<^verbatim>\<open>ai_train.py\<close> returns \<open>R\<^sup>2 = 1\<close>, where the
  claim and \<^verbatim>\<open>metrics\<close> of \<^verbatim>\<open>ai_power_train.py\<close> give 0.
\<close>

theorem metrics_train_degenerate_r2:
  "metrics_train [3, 3] [4, 2] = Inr \<lparr>mae = 1, rmse = 1, r2 = 1\<rparr>"
  by (simp add: metrics_train_def)

section \<open>Simulation engine: theorems\<close>

lemma clamp_spike_bounds:
  fixes cap w amt :: real
  assumes "40 \<le> cap" "0 \<le> amt"
  shows "40 \<le> (if b then min cap (max 40 (min w cap) + amt) else max 40 (min w cap)) \<and>
     (if b then min cap (max 40 (min w cap) + amt) else max 40 (min w cap)) \<le> cap"
  using assms by auto

lemma simulate_watts_shape:
  "\<exists>w0 b s4. fst (fst (simulate_watts R ts c lw s)) =
     (if b then min (contracted_power_kva c * 1000 * 0.92)
                 (max 40 (min w0 (contracted_power_kva c * 1000 * 0.92))
                    + fst (rng_uniform R 800 2200 s4))
      else max 40 (min w0 (contracted_power_kva c * 1000 * 0.92)))"
  unfolding simulate_watts_def Let_def split_beta
  apply (simp only: fst_conv if_distrib [of fst] if_distrib [of "\<lambda>p. fst (fst p)"])
  apply (intro exI)
  apply (rule refl)
  done

lemma simulate_watts_clamped:
  assumes cap: "40 \<le> contracted_power_kva c * 1000 * 0.92"
    and rng: "rng_in_range R"
  shows "40 \<le> fst (fst (simulate_watts R ts c lw s)) \<and>
         fst (fst (simulate_watts R ts c lw s)) \<le> contracted_power_kva c * 1000 * 0.92"
proof -
  obtain w0 b s4 where shape: "fst (fst (simulate_watts R ts c lw s)) =
     (if b then min (contracted_power_kva c * 1000 * 0.92)
                 (max 40 (min w0 (contracted_power_kva c * 1000 * 0.92))
                    + fst (rng_uniform R 800 2200 s4))
      else max 40 (min w0 (contracted_power_kva c * 1000 * 0.92)))"
    using simulate_watts_shape [of R ts c lw s] by (elim exE)
  have "(800::real) \<le> 2200" by simp
  then have "800 \<le> fst (rng_uniform R 800 2200 s4)"
    using rng unfolding rng_in_range_def by blast
  then have amt: "0 \<le> fst (rng_uniform R 800 2200 s4)" by simp
  show ?thesis
    unfolding shape by (rule clamp_spike_bounds [OF cap amt])
qed

lemma simulate_watts_euros_consts:
  "snd (snd (fst (simulate_watts R ts c lw s)))
     = (fst (fst (simulate_watts R ts c lw s)) / 1000) * RATE_EUR_PER_KWH * INTERVAL_HOURS"
  unfolding simulate_watts_def Let_def split_beta
  by (simp only: fst_conv snd_conv)

lemma rate_times_interval: "RATE_EUR_PER_KWH = 0.20 \<and> INTERVAL_HOURS = 0.25"
  by (simp add: RATE_EUR_PER_KWH_def INTERVAL_HOURS_def INTERVAL_MINUTES_def)

lemma price_update_selects:
  "segment (c\<lparr>price_eur_per_kwh := p\<rparr>) = segment c"
  "city (c\<lparr>price_eur_per_kwh := p\<rparr>) = city c"
  "home_area_m2 (c\<lparr>price_eur_per_kwh := p\<rparr>) = home_area_m2 c"
  "household_size (c\<lparr>price_eur_per_kwh := p\<rparr>) = household_size c"
  "has_solar (c\<lparr>price_eur_per_kwh := p\<rparr>) = has_solar c"
  "ev_count (c\<lparr>price_eur_per_kwh := p\<rparr>) = ev_count c"
  "contracted_power_kva (c\<lparr>price_eur_per_kwh := p\<rparr>) = contracted_power_kva c"
  by simp_all

lemma simulate_watts_price_irrelevant:
  "simulate_watts R ts (c\<lparr>price_eur_per_kwh := p\<rparr>) lw s = simulate_watts R ts c lw s"
  by (simp only: simulate_watts_def price_update_selects)

lemma midpoint_rng_in_range: "rng_in_range midpoint_rng"
  by (simp add: rng_in_range_def midpoint_rng_def field_simps)

lemma customer0_cap: "40 \<le> contracted_power_kva customer0 * 1000 * 0.92"
  by (simp add: customer0_def)

text \<open>
  C1, amended: the cost of every reading is \<open>(watts / 1000) * 0.20 * 0.25\<close>, with the
  rate fixed by the module constant \<^verbatim>\<open>RATE_EUR_PER_KWH = 0.20\<close> and the interval of a
  quarter of an hour; the unit price of the customer profile does not enter the result.
\<close>

theorem simulate_watts_euros:
  "snd (snd (fst (simulate_watts R ts c lw s)))
     = (fst (fst (simulate_watts R ts c lw s)) / 1000) * 0.20 * 0.25 \<and>
   RATE_EUR_PER_KWH = 0.20 \<and> INTERVAL_HOURS = 0.25 \<and>
   simulate_watts R ts (c\<lparr>price_eur_per_kwh := p\<rparr>) lw s = simulate_watts R ts c lw s"
proof -
  have r: "RATE_EUR_PER_KWH = 0.20" and i: "INTERVAL_HOURS = 0.25"
    using rate_times_interval by blast+
  have e: "snd (snd (fst (simulate_watts R ts c lw s)))
     = (fst (fst (simulate_watts R ts c lw s)) / 1000) * 0.20 * 0.25"
    using simulate_watts_euros_consts [of R ts c lw s] unfolding r i .
  show ?thesis
    using e r i simulate_watts_price_irrelevant [where R = R and ts = ts and c = c and p = p and lw = lw and s = s]
    by blast
qed

text \<open>
  C1, as the claim states it, fails for a customer whose unit price is not 0.20: for
  \<open>customer0\<close>, priced at 0.30, the cost returned is not
  \<open>(watts / 1000) * 0.30 * 0.25\<close>.
\<close>

theorem simulate_watts_euros_counterexample:
  "snd (snd (fst (simulate_watts midpoint_rng day170 customer0 None 0)))
     \<noteq> (fst (fst (simulate_watts midpoint_rng day170 customer0 None 0)) / 1000)
          * price_eur_per_kwh customer0 * 0.25"
proof -
  define w where "w = fst (fst (simulate_watts midpoint_rng day170 customer0 None 0))"
  define e where "e = snd (snd (fst (simulate_watts midpoint_rng day170 customer0 None 0)))"
  have w40: "40 \<le> w"
    unfolding w_def
    using simulate_watts_clamped [OF customer0_cap midpoint_rng_in_range] by blast
  have r: "RATE_EUR_PER_KWH = 0.20" and i: "INTERVAL_HOURS = 0.25"
    using rate_times_interval by blast+
  have e_eq: "e = (w / 1000) * 0.20 * 0.25"
    unfolding w_def e_def
    using simulate_watts_euros_consts [of midpoint_rng day170 customer0 None 0] unfolding r i .
  have p: "price_eur_per_kwh customer0 = 0.30" by (simp add: customer0_def)
  have "e \<noteq> (w / 1000) * 0.30 * 0.25"
    using w40 unfolding e_eq by simp
  then show ?thesis unfolding w_def e_def p .
qed

lemma contracted_tiers_cap:
  assumes "contracted_power_kva c \<in> {3.45, 4.6, 5.75, 6.9, 10.35, 13.8, 17.25, 20.7, 27.6}"
  shows "40 \<le> 0.92 * (contracted_power_kva c * 1000)"
  using assms by auto

text \<open>
  C4: for every timestamp, previous value (or none) and generator state, and every
  customer profile whose cap \<open>0.92 * contracted_power_kva * 1000\<close> is at least 40 (as it
  is for every contracted power of the data model, see \<open>contracted_tiers_cap\<close>), the
  watts returned lie between 40 and the cap, the spike included. The generator is any
  one whose \<^verbatim>\<open>uniform\<close> and \<^verbatim>\<open>random\<close> draw within their documented ranges.
\<close>

theorem simulate_watts_bounds:
  assumes "40 \<le> 0.92 * (contracted_power_kva c * 1000)"
    and "rng_in_range R"
  shows "40 \<le> fst (fst (simulate_watts R ts c last_watts s)) \<and>
         fst (fst (simulate_watts R ts c last_watts s)) \<le> 0.92 * (contracted_power_kva c * 1000)"
proof -
  have cap: "40 \<le> contracted_power_kva c * 1000 * 0.92" using assms(1) by simp
  have eq: "0.92 * (contracted_power_kva c * 1000) = contracted_power_kva c * 1000 * 0.92"
    by simp
  show ?thesis
    unfolding eq by (rule simulate_watts_clamped [OF cap assms(2)])
qed

theorem simulate_watts_bounds_witness:
  "40 \<le> 0.92 * (contracted_power_kva customer0 * 1000) \<and> rng_in_range midpoint_rng \<and>
   40 \<le> fst (fst (simulate_watts midpoint_rng day170 customer0 None 0)) \<and>
   fst (fst (simulate_watts midpoint_rng day170 customer0 None 0))
     \<le> 0.92 * (contracted_power_kva customer0 * 1000)"
proof -
  have cap: "40 \<le> 0.92 * (contracted_power_kva customer0 * 1000)"
    by (simp add: customer0_def)
  from simulate_watts_bounds [OF cap midpoint_rng_in_range, of day170 None 0]
    cap midpoint_rng_in_range
  show ?thesis by (intro conjI) (assumption | erule conjunct1 | erule conjunct2)+
qed

section \<open>Seasonal temperature: theorems\<close>

lemma cos_le_cos_small:
  fixes m :: int
  assumes "1 \<le> m" "m \<le> 1041"
  shows "cos (pi * real_of_int m / 730) \<le> cos (pi / 730)"
proof (cases "m \<le> 730")
  case True
  have a: "0 \<le> pi / 730" by simp
  have b: "pi / 730 \<le> pi * real_of_int m / 730"
    using assms(1) by (simp add: divide_le_cancel mult_le_cancel_left1)
  have c: "pi * real_of_int m / 730 \<le> pi"
    using True by (simp add: field_simps)
  show ?thesis by (rule cos_monotone_0_pi_le [OF a b c])
next
  case False
  define k where "k = 1460 - m"
  have k: "1 \<le> k" "k \<le> 730" using False assms by (simp_all add: k_def)
  have eq: "pi * real_of_int m / 730 = 2 * pi - pi * real_of_int k / 730"
    by (simp add: k_def field_simps)
  have "cos (2 * pi - pi * real_of_int k / 730) = cos (pi * real_of_int k / 730)"
    by (simp add: cos_diff)
  then have "cos (pi * real_of_int m / 730) = cos (pi * real_of_int k / 730)"
    unfolding eq .
  moreover have "cos (pi * real_of_int k / 730) \<le> cos (pi / 730)"
  proof -
    have a: "0 \<le> pi / 730" by simp
    have b: "pi / 730 \<le> pi * real_of_int k / 730"
      using k(1) by (simp add: divide_le_cancel mult_le_cancel_left1)
    have c: "pi * real_of_int k / 730 \<le> pi"
      using k(2) by (simp add: field_simps)
    show ?thesis by (rule cos_monotone_0_pi_le [OF a b c])
  qed
  ultimately show ?thesis by simp
qed

lemma sin_day_as_cos:
  "sin (2 * pi * real_of_int k / 365) = cos (pi * real_of_int \<bar>365 - 4 * k\<bar> / 730)"
proof -
  have "sin (2 * pi * real_of_int k / 365) = cos (pi / 2 - 2 * pi * real_of_int k / 365)"
    by (simp add: cos_diff)
  also have "pi / 2 - 2 * pi * real_of_int k / 365 = pi * real_of_int (365 - 4 * k) / 730"
    by (simp add: field_simps)
  also have "cos (pi * real_of_int (365 - 4 * k) / 730)
      = cos (pi * real_of_int \<bar>365 - 4 * k\<bar> / 730)"
  proof (cases "0 \<le> 365 - 4 * k")
    case True then show ?thesis by simp
  next
    case False
    then have "real_of_int \<bar>365 - 4 * k\<bar> = - real_of_int (365 - 4 * k)" by simp
    then have "pi * real_of_int \<bar>365 - 4 * k\<bar> / 730 = - (pi * real_of_int (365 - 4 * k) / 730)"
      by (simp only: mult_minus_right minus_divide_left)
    then show ?thesis by (simp only: cos_minus)
  qed
  finally show ?thesis .
qed

lemma sin_day_peak:
  fixes k :: int
  assumes "- 169 \<le> k" "k \<le> 196"
  shows "sin (2 * pi * real_of_int k / 365) \<le> sin (2 * pi * real_of_int 91 / 365)"
proof -
  have m1: "1 \<le> \<bar>365 - 4 * k\<bar>" by presburger
  have m2: "\<bar>365 - 4 * k\<bar> \<le> 1041" using assms by simp
  have "sin (2 * pi * real_of_int 91 / 365) = cos (pi / 730)"
    using sin_day_as_cos [of 91] by simp
  with cos_le_cos_small [OF m1 m2] sin_day_as_cos [of k] show ?thesis by simp
qed

lemma sin_day_91_pos: "0 < sin (2 * pi * real_of_int 91 / 365)"
proof -
  have "0 < 2 * pi * real_of_int 91 / 365" by simp
  moreover have "2 * pi * real_of_int 91 / 365 < pi" by (simp add: field_simps)
  ultimately show ?thesis by (rule sin_gt_zero)
qed

lemma seasonal_temperature_formula:
  "seasonal_temperature ts c =
     16 + 7 * sin (2 * pi * real_of_int (int (dt_yday ts) - 170) / 365)
       + (if c \<in> {''Porto'', ''Matosinhos'', ''Vila Nova de Gaia'', ''Aveiro''} then - 1 else 0)"
  by (simp only: seasonal_temperature_def Let_def)


lemma seasonal_temp_copy: "seasonal_temp ts c = seasonal_temperature ts c"
  by (simp only: seasonal_temp_def seasonal_temperature_def)

lemma simulate_watts_temp_c:
  "fst (snd (fst (simulate_watts R ts cu lw s)))
     = seasonal_temperature ts (city cu) + fst (rng_gauss R 0 1.2 s)"
  unfolding simulate_watts_def Let_def split_beta
  by (simp only: fst_conv snd_conv)

lemma seasonal_temperature_le_day261:
  assumes "1 \<le> dt_yday ts" "dt_yday ts \<le> 366"
  shows "seasonal_temperature ts c \<le> seasonal_temperature (ts\<lparr>dt_yday := 261\<rparr>) c"
proof -
  have "sin (2 * pi * real_of_int (int (dt_yday ts) - 170) / 365)
      \<le> sin (2 * pi * real_of_int 91 / 365)"
    using assms by (intro sin_day_peak) simp_all
  moreover have "int (dt_yday (ts\<lparr>dt_yday := 261\<rparr>)) - 170 = 91" by simp
  ultimately show ?thesis
    unfolding seasonal_temperature_formula by simp
qed

text \<open>
  C6, as the claim states it, fails on the phase: at day 170 the deterministic part is
  at the midline (16 degrees inland), not at its peak, and it is strictly higher at day
  261.
\<close>

theorem seasonal_temperature_day170_counterexample:
  "seasonal_temperature day170 ''Lisboa'' = 16 \<and>
   seasonal_temperature day170 ''Lisboa'' < seasonal_temperature day261 ''Lisboa''"
proof -
  have a: "seasonal_temperature day170 ''Lisboa'' = 16"
    by (simp add: seasonal_temperature_formula day170_def)
  have "int (dt_yday day261) - 170 = 91" by (simp add: day261_def)
  then have b: "seasonal_temperature day261 ''Lisboa'' = 16 + 7 * sin (2 * pi * real_of_int 91 / 365)"
    unfolding seasonal_temperature_formula by simp
  show ?thesis using a b sin_day_91_pos by simp
qed

text \<open>
  C6, amended: for every timestamp and city the deterministic part of the ambient
  temperature, in \<^verbatim>\<open>ai_generate.py\<close> and in its copy of \<^verbatim>\<open>ai_train.py\<close>, is
  \<open>16 + 7 * sin (2 * pi * (day - 170) / 365)\<close> plus an offset of \<open>- 1\<close> for Porto,
  Matosinhos, Vila Nova de Gaia and Aveiro: a sinusoid of amplitude 7 around the midline
  16, which crosses the midline at day 170 and is highest, among the days 1 to 366 of a
  year, at day 261. The simulation adds the Gaussian draw to it.
\<close>

theorem seasonal_temperature_sinusoid:
  "seasonal_temperature ts c =
     16 + 7 * sin (2 * pi * real_of_int (int (dt_yday ts) - 170) / 365)
       + (if c \<in> {''Porto'', ''Matosinhos'', ''Vila Nova de Gaia'', ''Aveiro''} then - 1 else 0) \<and>
   seasonal_temp ts c = seasonal_temperature ts c \<and>
   \<bar>seasonal_temperature ts c
      - (16 + (if c \<in> {''Porto'', ''Matosinhos'', ''Vila Nova de Gaia'', ''Aveiro''} then - 1 else 0))\<bar> \<le> 7 \<and>
   (dt_yday ts = 170 \<longrightarrow>
      seasonal_temperature ts c =
        16 + (if c \<in> {''Porto'', ''Matosinhos'', ''Vila Nova de Gaia'', ''Aveiro''} then - 1 else 0)) \<and>
   (1 \<le> dt_yday ts \<and> dt_yday ts \<le> 366 \<longrightarrow>
      seasonal_temperature ts c \<le> seasonal_temperature (ts\<lparr>dt_yday := 261\<rparr>) c) \<and>
   fst (snd (fst (simulate_watts R ts cu lw s)))
     = seasonal_temperature ts (city cu) + fst (rng_gauss R 0 1.2 s)"
proof -
  let ?off = "(if c \<in> {''Porto'', ''Matosinhos'', ''Vila Nova de Gaia'', ''Aveiro''} then - 1 else 0) :: real"
  let ?s = "sin (2 * pi * real_of_int (int (dt_yday ts) - 170) / 365)"
  have f: "seasonal_temperature ts c = 16 + 7 * ?s + ?off"
    by (rule seasonal_temperature_formula)
  have "\<bar>?s\<bar> \<le> 1" by (rule abs_sin_le_one)
  then have "\<bar>7 * ?s\<bar> \<le> 7" by (simp add: abs_mult)
  moreover have "seasonal_temperature ts c - (16 + ?off) = 7 * ?s"
    unfolding f by (simp only: algebra_simps)
  ultimately have b: "\<bar>seasonal_temperature ts c - (16 + ?off)\<bar> \<le> 7" by simp
  have m: "dt_yday ts = 170 \<longrightarrow> seasonal_temperature ts c = 16 + ?off"
    unfolding f by simp
  have p: "1 \<le> dt_yday ts \<and> dt_yday ts \<le> 366 \<longrightarrow>
      seasonal_temperature ts c \<le> seasonal_temperature (ts\<lparr>dt_yday := 261\<rparr>) c"
    using seasonal_temperature_le_day261 by blast
  show ?thesis
    by (intro conjI) (rule f, rule seasonal_temp_copy, rule b, rule m, rule p,
        rule simulate_watts_temp_c)
qed

theorem seasonal_temperature_sinusoid_witness:
  "dt_yday day170 = 170 \<and> 1 \<le> dt_yday day170 \<and> dt_yday day170 \<le> 366 \<and>
   seasonal_temperature day170 ''Porto'' = 15 \<and>
   seasonal_temperature day170 ''Porto'' \<le> seasonal_temperature (day170\<lparr>dt_yday := 261\<rparr>) ''Porto''"
proof -
  have d: "dt_yday day170 = 170" by (simp add: day170_def)
  have r: "1 \<le> dt_yday day170 \<and> dt_yday day170 \<le> 366" by (simp add: day170_def)
  note t = seasonal_temperature_sinusoid [of day170 "''Porto''" midpoint_rng customer0 None 0]
  have "seasonal_temperature day170 ''Porto'' =
     16 + (if ''Porto'' \<in> {''Porto'', ''Matosinhos'', ''Vila Nova de Gaia'', ''Aveiro''} then - 1 else 0)"
    using t d by blast
  then have v: "seasonal_temperature day170 ''Porto'' = 15" by simp
  have le: "seasonal_temperature day170 ''Porto'' \<le> seasonal_temperature (day170\<lparr>dt_yday := 261\<rparr>) ''Porto''"
    using t r by blast
  show ?thesis using d r v le by blast
qed

section \<open>Matrix inversion: theorems\<close>























lemma invert_swap_matrix: "invert_matrix swap_matrix = Inr [[0, 1], [1 / 2, 0]]"
  by code_simp




section \<open>Standardization: theorems\<close>








lemma floored_std_nonzero:
  "(if col_sample_std x j > 1 / 10 ^ 9 then col_sample_std x j else 1) \<noteq> 0"
  by auto



section \<open>Standardization in floating-point arithmetic: theorems\<close>
























section \<open>Training pipelines: theorems\<close>

lemma power_dataset_lengths:
  "length (fst (power_dataset g st cs)) = length (filter (has_history g) cs) \<and>
   length (snd (power_dataset g st cs)) = length (filter (has_history g) cs)"
  by (induction cs) (auto simp: has_history_def Let_def split_beta split: option.splits)

lemma main_train_few_samples:
  assumes "length x < 200"
  shows "main_train shuffle now no_customers x y seed l2 fs =
     (Inl (if no_customers then SystemExit_no_customers else SystemExit_few_samples (length x)), fs)"
  using assms by (simp add: main_train_def)

lemma main_power_few_customers:
  assumes "length (filter (has_history g) customers) < 10"
  shows "main_power g st now customers l2 fs = (Inl SystemExit_few_customers, fs)"
proof -
  have "length (fst (power_dataset g st customers)) < 10"
    using assms power_dataset_lengths [of g st customers] by simp
  then show ?thesis
    by (simp add: main_power_def split_beta)
qed

lemma main_train_error_keeps_file:
  "fst (main_train shuffle now no_customers x y seed l2 fs) = Inl e \<Longrightarrow>
   snd (main_train shuffle now no_customers x y seed l2 fs) = fs"
  by (auto simp: main_train_def Let_def split_beta split: if_splits sum.splits)

lemma main_power_error_keeps_file:
  "fst (main_power g st now customers l2 fs) = Inl e \<Longrightarrow>
   snd (main_power g st now customers l2 fs) = fs"
  by (auto simp: main_power_def Let_def split_beta split: if_splits sum.splits)


text \<open>
  C9: with fewer than 200 training pairs the next-step pipeline ends in
  \<^verbatim>\<open>SystemExit\<close> (the insufficient-data message when there are customers at all),
  and with fewer than 10 customers that have telemetry the power-sizing pipeline ends in
  its \<^verbatim>\<open>SystemExit\<close>; in both cases the output file is left as it was.
\<close>

theorem insufficient_data_aborts:
  "(length x < 200 \<longrightarrow>
      (\<exists>e. main_train shuffle now no_customers x y seed l2 fs = (Inl e, fs)) \<and>
      (\<not> no_customers \<longrightarrow>
         main_train shuffle now no_customers x y seed l2 fs
           = (Inl (SystemExit_few_samples (length x)), fs))) \<and>
   (length (filter (has_history get_latest_ts) customers) < 10 \<longrightarrow>
      main_power get_latest_ts get_stats_30d now' customers l2' fs'
        = (Inl SystemExit_few_customers, fs')) \<and>
   length (fst (power_dataset get_latest_ts get_stats_30d customers))
     = length (filter (has_history get_latest_ts) customers)"
proof (intro conjI impI)
  assume a: "length x < 200"
  show "\<exists>e. main_train shuffle now no_customers x y seed l2 fs = (Inl e, fs)"
    using main_train_few_samples [OF a] by blast
  assume "\<not> no_customers"
  then show "main_train shuffle now no_customers x y seed l2 fs
           = (Inl (SystemExit_few_samples (length x)), fs)"
    using main_train_few_samples [OF a, of shuffle now no_customers y seed l2 fs] by simp
next
  assume "length (filter (has_history get_latest_ts) customers) < 10"
  then show "main_power get_latest_ts get_stats_30d now' customers l2' fs'
        = (Inl SystemExit_few_customers, fs')"
    by (rule main_power_few_customers)
next
  show "length (fst (power_dataset get_latest_ts get_stats_30d customers))
     = length (filter (has_history get_latest_ts) customers)"
    using power_dataset_lengths by blast
qed

theorem insufficient_data_aborts_witness:
  "length sample_matrix < 200 \<and> \<not> False \<and>
   length (filter (has_history latest0) [residential0]) < 10 \<and>
   main_train rotate_shuffle ''now'' False sample_matrix [1, 2] 42 2 None
     = (Inl (SystemExit_few_samples 2), None) \<and>
   main_power latest0 stats0 ''now'' [residential0] 1 None
     = (Inl SystemExit_few_customers, None)"
proof -
  have a: "length sample_matrix < 200" by (simp add: sample_matrix_def)
  have l: "length sample_matrix = 2" by (simp add: sample_matrix_def)
  have b: "length (filter (has_history latest0) [residential0]) < 10" by simp
  note t = insufficient_data_aborts [where x = sample_matrix and no_customers = False
      and customers = "[residential0]" and get_latest_ts = latest0
      and shuffle = rotate_shuffle and now = "''now''" and y = "[1, 2]" and seed = 42
      and ?l2.0 = 2 and fs = None and get_stats_30d = stats0 and now' = "''now''"
      and l2' = 1 and fs' = None]
  have m: "main_train rotate_shuffle ''now'' False sample_matrix [1, 2] 42 2 None
     = (Inl (SystemExit_few_samples 2), None)"
    using t a l by simp
  have p: "main_power latest0 stats0 ''now'' [residential0] 1 None
     = (Inl SystemExit_few_customers, None)"
    using t b by blast
  show ?thesis using a b m p by simp
qed

lemma split_point: "nat \<lfloor>real n * 0.8\<rfloor> = (4 * n) div 5"
proof -
  have "real n * 0.8 = real (4 * n) / real 5" by simp
  then have "\<lfloor>real n * 0.8\<rfloor> = \<lfloor>real (4 * n) / real 5\<rfloor>" by (simp only:)
  also have "\<dots> = int ((4 * n) div 5)" by (rule floor_divide_of_nat_eq)
  finally show ?thesis by simp
qed

lemma train_test_split_eq:
  "train_test_split shuffle seed n =
     (take ((4 * length (shuffle seed [0..<n])) div 5) (shuffle seed [0..<n]),
      drop ((4 * length (shuffle seed [0..<n])) div 5) (shuffle seed [0..<n]))"
  by (simp only: train_test_split_def Let_def split_point)

lemma train_test_split_props:
  assumes perm: "mset (shuffle seed [0..<n]) = mset [0..<n]"
  shows "fst (train_test_split shuffle seed n) @ snd (train_test_split shuffle seed n)
           = shuffle seed [0..<n]"
    and "length (fst (train_test_split shuffle seed n)) = (4 * n) div 5"
    and "length (snd (train_test_split shuffle seed n)) = n - (4 * n) div 5"
    and "set (fst (train_test_split shuffle seed n)) \<inter> set (snd (train_test_split shuffle seed n)) = {}"
    and "set (fst (train_test_split shuffle seed n)) \<union> set (snd (train_test_split shuffle seed n)) = {0..<n}"
proof -
  let ?idx = "shuffle seed [0..<n]"
  have len: "length ?idx = n" using mset_eq_length [OF perm] by simp
  have dist: "distinct ?idx" using mset_eq_imp_distinct_iff [OF perm] by simp
  have set: "set ?idx = {0..<n}" using mset_eq_setD [OF perm] by simp
  show "fst (train_test_split shuffle seed n) @ snd (train_test_split shuffle seed n) = ?idx"
    by (simp add: train_test_split_eq)
  show "length (fst (train_test_split shuffle seed n)) = (4 * n) div 5"
    by (simp add: train_test_split_eq len)
  show "length (snd (train_test_split shuffle seed n)) = n - (4 * n) div 5"
    by (simp add: train_test_split_eq len)
  show "set (fst (train_test_split shuffle seed n)) \<inter> set (snd (train_test_split shuffle seed n)) = {}"
    using dist by (simp add: train_test_split_eq set_take_disj_set_drop_if_distinct)
  have "set (take ((4 * n) div 5) ?idx) \<union> set (drop ((4 * n) div 5) ?idx) = set ?idx"
    by (simp only: set_append [symmetric] append_take_drop_id)
  then show "set (fst (train_test_split shuffle seed n)) \<union> set (snd (train_test_split shuffle seed n)) = {0..<n}"
    by (simp add: train_test_split_eq len set)
qed

lemma main_train_fit_eval:
  assumes "\<not> no_customers" "200 \<le> length x"
  shows "map_option tp_metrics (snd (main_train shuffle now no_customers x y seed l2 None))
     = metrics_of_run (fit_and_evaluate metrics_train x y
         (fst (train_test_split shuffle seed (length x)))
         (snd (train_test_split shuffle seed (length x))) l2)"
  using assms
  by (simp add: main_train_def fit_and_evaluate_def metrics_of_run_def Let_def split_beta comp_def
      split: sum.splits)

lemma main_power_fit_eval:
  assumes "10 \<le> length (filter (has_history g) cs)"
  shows "map_option pp_metrics (snd (main_power g st now cs l2 None))
     = metrics_of_run (fit_and_evaluate metrics_power
         (fst (power_dataset g st cs)) (snd (power_dataset g st cs))
         (fst (power_fit_eval_idx (length (fst (power_dataset g st cs)))))
         (snd (power_fit_eval_idx (length (fst (power_dataset g st cs))))) l2)"
proof -
  let ?x = "fst (power_dataset g st cs)" and ?y = "snd (power_dataset g st cs)"
  have lx: "\<not> length ?x < 10" and ly: "length ?y = length ?x"
    using assms power_dataset_lengths [of g st cs] by simp_all
  have mx: "map (\<lambda>i. ?x ! i) [0..<length ?x] = ?x" by (rule map_nth)
  have my: "map (\<lambda>i. ?y ! i) [0..<length ?x] = ?y" unfolding ly [symmetric] by (rule map_nth)
  have mp: "map (\<lambda>i. f (?x ! i)) [0..<length ?x] = map f ?x" for f :: "real list \<Rightarrow> real"
  proof -
    have "map f (map (\<lambda>i. ?x ! i) [0..<length ?x]) = map f ?x" by (simp only: mx)
    then show ?thesis by (simp only: map_map comp_def)
  qed
  show ?thesis
  proof (cases "ridge_fit ?x ?y l2")
    case (Inl e)
    then show ?thesis
      using lx
      by (simp add: main_power_def fit_and_evaluate_def metrics_of_run_def power_fit_eval_idx_def
          Let_def split_beta mx my)
  next
    case (Inr r)
    obtain w b means stds where r: "r = (w, b, means, stds)" by (cases r) auto
    have preds: "map (\<lambda>i. predict_row (?x ! i) w b means stds) [0..<length ?x]
        = map (\<lambda>row. predict_row row w b means stds) ?x"
      by (rule mp)
    show ?thesis
      using lx Inr r
      by (simp add: main_power_def fit_and_evaluate_def metrics_of_run_def power_fit_eval_idx_def
          Let_def split_beta mx my preds split: sum.splits)
  qed
qed


lemma mset_rotate_shuffle: "mset (rotate_shuffle seed xs) = mset xs"
proof -
  let ?k = "nat \<bar>seed\<bar> mod length xs"
  have "mset (rotate (nat \<bar>seed\<bar>) xs) = mset (drop ?k xs @ take ?k xs)"
    by (simp only: rotate_drop_take)
  also have "\<dots> = mset (take ?k xs @ drop ?k xs)"
    by (simp only: mset_append add.commute)
  also have "\<dots> = mset xs" by (simp only: append_take_drop_id)
  finally show ?thesis by (simp only: rotate_shuffle_def)
qed

lemma ten_customers_history: "length (filter (has_history latest0) ten_customers) = 10"
  by (simp add: ten_customers_def has_history_def latest0_def)

text \<open>
  C3, as the claim states it, fails for the power-sizing pipeline: for ten customers with
  telemetry the metrics it writes are those of fitting on the samples 0 to 9 and
  evaluating on the same samples 0 to 9; the evaluation set is the training set, not a
  set disjoint from it.
\<close>

theorem power_pipeline_no_holdout_counterexample:
  "map_option pp_metrics (snd (main_power latest0 stats0 ''now'' ten_customers 1 None))
     = metrics_of_run (fit_and_evaluate metrics_power
         (fst (power_dataset latest0 stats0 ten_customers))
         (snd (power_dataset latest0 stats0 ten_customers))
         (fst (power_fit_eval_idx 10)) (snd (power_fit_eval_idx 10)) 1) \<and>
   snd (power_fit_eval_idx 10) = fst (power_fit_eval_idx 10) \<and>
   set (fst (power_fit_eval_idx 10)) \<inter> set (snd (power_fit_eval_idx 10)) \<noteq> {}"
proof -
  have h: "10 \<le> length (filter (has_history latest0) ten_customers)"
    by (simp add: ten_customers_history)
  have l: "length (fst (power_dataset latest0 stats0 ten_customers)) = 10"
    using power_dataset_lengths [of latest0 stats0 ten_customers] ten_customers_history by simp
  have a: "map_option pp_metrics (snd (main_power latest0 stats0 ''now'' ten_customers 1 None))
     = metrics_of_run (fit_and_evaluate metrics_power
         (fst (power_dataset latest0 stats0 ten_customers))
         (snd (power_dataset latest0 stats0 ten_customers))
         (fst (power_fit_eval_idx 10)) (snd (power_fit_eval_idx 10)) 1)"
    using main_power_fit_eval [OF h, of stats0 "''now''" 1] unfolding l .
  have b: "snd (power_fit_eval_idx 10) = fst (power_fit_eval_idx 10)"
    by (simp add: power_fit_eval_idx_def)
  have "(0::nat) \<in> set (fst (power_fit_eval_idx 10)) \<inter> set (snd (power_fit_eval_idx 10))"
    by (simp add: power_fit_eval_idx_def)
  then have c: "set (fst (power_fit_eval_idx 10)) \<inter> set (snd (power_fit_eval_idx 10)) \<noteq> {}"
    by blast
  show ?thesis using a b c by (intro conjI)
qed

text \<open>
  C3, amended: the next-step pipeline evaluates on a held-out set. The indices
  \<open>0..<n\<close> are shuffled by the generator seeded with \<open>seed\<close> (any shuffle that
  permutes them), the first \<open>\<lfloor>0.8 n\<rfloor> = 4n div 5\<close> are the training indices, the rest
  the test indices, the two are disjoint and together all indices, and the metrics
  written are those of fitting on the training indices and evaluating on the test
  indices; the split is a function of the seed. The power-sizing pipeline has no split:
  the metrics it writes are those of fitting on all samples and evaluating on the same
  samples.
\<close>

theorem held_out_evaluation:
  assumes "mset (shuffle seed [0..<length x]) = mset [0..<length x]"
    and "\<not> no_customers" and "200 \<le> length x"
    and "10 \<le> length (filter (has_history get_latest_ts) customers)"
  shows "fst (train_test_split shuffle seed (length x)) @ snd (train_test_split shuffle seed (length x))
           = shuffle seed [0..<length x] \<and>
     length (fst (train_test_split shuffle seed (length x))) = (4 * length x) div 5 \<and>
     length (snd (train_test_split shuffle seed (length x))) = length x - (4 * length x) div 5 \<and>
     set (fst (train_test_split shuffle seed (length x)))
       \<inter> set (snd (train_test_split shuffle seed (length x))) = {} \<and>
     set (fst (train_test_split shuffle seed (length x)))
       \<union> set (snd (train_test_split shuffle seed (length x))) = {0..<length x} \<and>
     map_option tp_metrics (snd (main_train shuffle now no_customers x y seed l2 None))
       = metrics_of_run (fit_and_evaluate metrics_train x y
           (fst (train_test_split shuffle seed (length x)))
           (snd (train_test_split shuffle seed (length x))) l2) \<and>
     map_option pp_metrics (snd (main_power get_latest_ts get_stats_30d now' customers l2' None))
       = metrics_of_run (fit_and_evaluate metrics_power
           (fst (power_dataset get_latest_ts get_stats_30d customers))
           (snd (power_dataset get_latest_ts get_stats_30d customers))
           [0..<length (fst (power_dataset get_latest_ts get_stats_30d customers))]
           [0..<length (fst (power_dataset get_latest_ts get_stats_30d customers))] l2')"
proof -
  note p = train_test_split_props [of shuffle seed "length x", OF assms(1)]
  have t: "map_option tp_metrics (snd (main_train shuffle now no_customers x y seed l2 None))
       = metrics_of_run (fit_and_evaluate metrics_train x y
           (fst (train_test_split shuffle seed (length x)))
           (snd (train_test_split shuffle seed (length x))) l2)"
    by (rule main_train_fit_eval [OF assms(2,3)])
  have w: "map_option pp_metrics (snd (main_power get_latest_ts get_stats_30d now' customers l2' None))
       = metrics_of_run (fit_and_evaluate metrics_power
           (fst (power_dataset get_latest_ts get_stats_30d customers))
           (snd (power_dataset get_latest_ts get_stats_30d customers))
           [0..<length (fst (power_dataset get_latest_ts get_stats_30d customers))]
           [0..<length (fst (power_dataset get_latest_ts get_stats_30d customers))] l2')"
    using main_power_fit_eval [OF assms(4), of get_stats_30d now' l2']
    by (simp only: power_fit_eval_idx_def fst_conv snd_conv)
  show ?thesis
    by (intro conjI) (rule p(1), rule p(2), rule p(3), rule p(4), rule p(5), rule t, rule w)
qed

theorem held_out_evaluation_witness:
  "mset (rotate_shuffle 42 [0..<length pairs_x]) = mset [0..<length pairs_x] \<and>
   \<not> False \<and> 200 \<le> length pairs_x \<and>
   10 \<le> length (filter (has_history latest0) ten_customers) \<and>
   length (fst (train_test_split rotate_shuffle 42 (length pairs_x))) = 160 \<and>
   length (snd (train_test_split rotate_shuffle 42 (length pairs_x))) = 40 \<and>
   set (fst (train_test_split rotate_shuffle 42 (length pairs_x)))
     \<inter> set (snd (train_test_split rotate_shuffle 42 (length pairs_x))) = {}"
proof -
  have a: "mset (rotate_shuffle 42 [0..<length pairs_x]) = mset [0..<length pairs_x]"
    by (rule mset_rotate_shuffle)
  have b: "\<not> False" by simp
  have c: "200 \<le> length pairs_x" by (simp add: pairs_x_def)
  have l: "length pairs_x = 200" by (simp add: pairs_x_def)
  have d: "10 \<le> length (filter (has_history latest0) ten_customers)"
    by (simp add: ten_customers_history)
  note t = held_out_evaluation [where shuffle = rotate_shuffle and seed = 42 and x = pairs_x
      and no_customers = False and get_latest_ts = latest0 and customers = ten_customers
      and now = "''now''" and y = pairs_y and ?l2.0 = 2 and get_stats_30d = stats0
      and now' = "''now''" and l2' = 1, OF a b c d]
  have e: "length (fst (train_test_split rotate_shuffle 42 (length pairs_x))) = 160"
    using t l by simp
  have f: "length (snd (train_test_split rotate_shuffle 42 (length pairs_x))) = 40"
    using t l by simp
  have g: "set (fst (train_test_split rotate_shuffle 42 (length pairs_x)))
     \<inter> set (snd (train_test_split rotate_shuffle 42 (length pairs_x))) = {}"
    by (rule t [THEN conjunct2, THEN conjunct2, THEN conjunct2, THEN conjunct1])
  show ?thesis using a c d e f g by (intro conjI) simp_all
qed

end
